theory Spec2Isabelle
  imports Complex_Main "HOL-Library.Word" "HOL-Library.Char_ord" "HOL-Library.List_Lexorder"
begin

unbundle bit_operations_syntax

section \<open>The digest: SHA-256 as computed by hashlib\<close>

text \<open>
  Both source files hash with \<^verbatim>\<open>hashlib.sha256(s.encode()).hexdigest()\<close>. The digest is
  modelled after FIPS 180-4 on natural numbers below \<open>2 ^ 32\<close>: addition wraps by
  \<open>mod 2 ^ 32\<close>, rotation and shift are written with \<open>div\<close> and \<open>mod\<close>. A Python
  string is modelled by its UTF-8 bytes, one \<open>char\<close> per byte.
\<close>

definition add32 :: "nat \<Rightarrow> nat \<Rightarrow> nat" where
  "add32 a b = (a + b) mod 4294967296"

definition rotr :: "nat \<Rightarrow> nat \<Rightarrow> nat" where
  "rotr n x = x div 2 ^ n + (x mod 2 ^ n) * 2 ^ (32 - n)"

definition shr :: "nat \<Rightarrow> nat \<Rightarrow> nat" where
  "shr n x = x div 2 ^ n"

definition ssig0 :: "nat \<Rightarrow> nat" where
  "ssig0 x = (rotr 7 x XOR rotr 18 x) XOR shr 3 x"

definition ssig1 :: "nat \<Rightarrow> nat" where
  "ssig1 x = (rotr 17 x XOR rotr 19 x) XOR shr 10 x"

definition bsig0 :: "nat \<Rightarrow> nat" where
  "bsig0 x = (rotr 2 x XOR rotr 13 x) XOR rotr 22 x"

definition bsig1 :: "nat \<Rightarrow> nat" where
  "bsig1 x = (rotr 6 x XOR rotr 11 x) XOR rotr 25 x"

definition ch :: "nat \<Rightarrow> nat \<Rightarrow> nat \<Rightarrow> nat" where
  "ch x y z = (x AND y) XOR ((4294967295 - x) AND z)"

definition maj :: "nat \<Rightarrow> nat \<Rightarrow> nat \<Rightarrow> nat" where
  "maj x y z = ((x AND y) XOR (x AND z)) XOR (y AND z)"

definition sha_K :: "nat list" where
  "sha_K =
    [1116352408, 1899447441, 3049323471, 3921009573,
     961987163, 1508970993, 2453635748, 2870763221,
     3624381080, 310598401, 607225278, 1426881987,
     1925078388, 2162078206, 2614888103, 3248222580,
     3835390401, 4022224774, 264347078, 604807628,
     770255983, 1249150122, 1555081692, 1996064986,
     2554220882, 2821834349, 2952996808, 3210313671,
     3336571891, 3584528711, 113926993, 338241895,
     666307205, 773529912, 1294757372, 1396182291,
     1695183700, 1986661051, 2177026350, 2456956037,
     2730485921, 2820302411, 3259730800, 3345764771,
     3516065817, 3600352804, 4094571909, 275423344,
     430227734, 506948616, 659060556, 883997877,
     958139571, 1322822218, 1537002063, 1747873779,
     1955562222, 2024104815, 2227730452, 2361852424,
     2428436474, 2756734187, 3204031479, 3329325298]"

definition sha_H0 :: "nat list" where
  "sha_H0 =
    [1779033703, 3144134277, 1013904242, 2773480762,
     1359893119, 2600822924, 528734635, 1541459225]"

definition len_bytes :: "nat \<Rightarrow> nat list" where
  "len_bytes n = [n div 2 ^ 56 mod 256, n div 2 ^ 48 mod 256, n div 2 ^ 40 mod 256,
     n div 2 ^ 32 mod 256, n div 2 ^ 24 mod 256, n div 2 ^ 16 mod 256,
     n div 2 ^ 8 mod 256, n mod 256]"

definition zeros64 :: "nat list" where
  "zeros64 = [0,0,0,0,0,0,0,0,0,0,0,0,0,0,0,0,0,0,0,0,0,0,0,0,0,0,0,0,0,0,0,0,
              0,0,0,0,0,0,0,0,0,0,0,0,0,0,0,0,0,0,0,0,0,0,0,0,0,0,0,0,0,0,0,0]"

text \<open>The message, the byte 0x80, zero bytes up to 56 modulo 64, the bit length on 8 bytes.\<close>

definition pad_bytes :: "nat list \<Rightarrow> nat list" where
  "pad_bytes m =
     m @ [128] @ take ((119 - length m mod 64) mod 64) zeros64 @ len_bytes (8 * length m)"

fun words_of :: "nat list \<Rightarrow> nat list" where
  "words_of (a # b # c # d # r) = (((a * 256 + b) * 256 + c) * 256 + d) # words_of r"
| "words_of _ = []"

fun blocks_of :: "nat list \<Rightarrow> nat list list" where
  "blocks_of [] = []"
| "blocks_of (x # xs) = take 16 (x # xs) # blocks_of (drop 16 (x # xs))"

text \<open>
  The message schedule is kept as a sliding window of 16 words: the head is the word of
  the current round, and each round appends the word 16 places further on.
\<close>

definition next_window :: "nat list \<Rightarrow> nat list" where
  "next_window w =
     tl w @ [add32 (add32 (add32 (ssig1 (w ! 14)) (w ! 9)) (ssig0 (w ! 1))) (w ! 0)]"

fun mix :: "nat \<Rightarrow> nat \<Rightarrow> nat list \<Rightarrow> nat list" where
  "mix t1 t2 [a, b, c, d, e, f, g, h] = [add32 t1 t2, a, b, c, add32 d t1, e, f, g]"
| "mix t1 t2 s = s"

fun round_step :: "nat \<Rightarrow> nat \<Rightarrow> nat list \<Rightarrow> nat list" where
  "round_step k w [a, b, c, d, e, f, g, h] =
     mix (add32 (add32 (add32 (add32 h (bsig1 e)) (ch e f g)) k) w)
         (add32 (bsig0 a) (maj a b c)) [a, b, c, d, e, f, g, h]"
| "round_step k w s = s"

fun rounds :: "nat list \<Rightarrow> nat list \<Rightarrow> nat list \<Rightarrow> nat list" where
  "rounds [] w s = s"
| "rounds (k # ks) w s = rounds ks (next_window w) (round_step k (hd w) s)"

definition compress :: "nat list \<Rightarrow> nat list \<Rightarrow> nat list" where
  "compress s blk = map2 add32 s (rounds sha_K blk s)"

definition hex_digit :: "nat \<Rightarrow> char" where
  "hex_digit n = ''0123456789abcdef'' ! n"

definition hex_word :: "nat \<Rightarrow> string" where
  "hex_word w = [hex_digit (w div 2 ^ 28 mod 16), hex_digit (w div 2 ^ 24 mod 16),
     hex_digit (w div 2 ^ 20 mod 16), hex_digit (w div 2 ^ 16 mod 16),
     hex_digit (w div 2 ^ 12 mod 16), hex_digit (w div 2 ^ 8 mod 16),
     hex_digit (w div 2 ^ 4 mod 16), hex_digit (w mod 16)]"

definition sha256_hexdigest :: "string \<Rightarrow> string" where
  "sha256_hexdigest m =
     concat (map hex_word
       (foldl compress sha_H0 (blocks_of (words_of (pad_bytes (map of_char m))))))"

section \<open>Rendering integers as Python does\<close>

text \<open>\<^verbatim>\<open>str(n)\<close> of a Python integer: decimal digits, a minus sign for a negative one.\<close>

fun str_nat :: "nat \<Rightarrow> string" where
  "str_nat n = (if n < 10 then [hex_digit n] else str_nat (n div 10) @ [hex_digit (n mod 10)])"

declare str_nat.simps [simp del]

definition str_int :: "int \<Rightarrow> string" where
  "str_int i = (if i < 0 then CHR ''-'' # str_nat (nat (- i)) else str_nat (nat i))"

section \<open>Admission: proof verification and proof search\<close>

text \<open>
  \<^verbatim>\<open>
  def verifying_proof(last_proof, proof):
      guess = f'{last_proof}{proof}'.encode()
      guess_hash = hashlib.sha256(guess).hexdigest()
      return guess_hash[:4] == "0000"
  \<close>
  The first argument is rendered first, whatever it is called.
\<close>

definition verifying_proof :: "int \<Rightarrow> int \<Rightarrow> bool" where
  "verifying_proof last_proof proof =
     (take 4 (sha256_hexdigest (str_int last_proof @ str_int proof)) = ''0000'')"

text \<open>
  \<^verbatim>\<open>
  def proof_of_work(last_proof):
      proof_no = 0
      while Blockchain.verifying_proof(proof_no, last_proof) is False:
          proof_no += 1
      return proof_no
  \<close>
  The loop has no bound, so its model returns \<open>None\<close> when it runs forever. The
  candidate \<open>proof_no\<close> is passed as the first argument of \<open>verifying_proof\<close>.
\<close>

partial_function (option) pow_loop :: "int \<Rightarrow> int \<Rightarrow> int option" where
  "pow_loop proof_no last_proof =
     (if verifying_proof proof_no last_proof then Some proof_no
      else pow_loop (proof_no + 1) last_proof)"

definition proof_of_work :: "int \<Rightarrow> int option" where
  "proof_of_work last_proof = pow_loop 0 last_proof"

section \<open>Python values, blocks and the environment\<close>

datatype py_error = FileNotFoundError | KeyError | ValueError | IndexError | TypeError

text \<open>
  A record of a payload is a Python \<^verbatim>\<open>dict\<close> with string keys. Its values are strings,
  or (for the listing of the index chain) a list of such dicts. A dict is an association
  list in insertion order, with distinct keys.
\<close>

datatype pyval = Str string | Dicts "(string \<times> pyval) list list"

type_synonym pydict = "(string \<times> pyval) list"

text \<open>\<^verbatim>\<open>class Block\<close>: the five attributes set by \<^verbatim>\<open>__init__\<close>.\<close>

record Block =
  index :: int
  proof_no :: int
  prev_hash :: string
  data :: "pydict list"
  timestamp :: real

text \<open>
  What the code takes from the Python runtime and the process, and does not define:
  \<^item> \<open>str_data\<close> and \<open>str_float\<close>: the text that \<^verbatim>\<open>"{}".format\<close> produces for the payload
    list and for the float timestamp;
  \<^item> \<open>relpath\<close>: \<^verbatim>\<open>os.path.relpath(p, start=os.getcwd())\<close>, which depends on the working
    directory;
  \<^item> \<open>str_hash\<close>: the string hash of the process, which fixes the order in which a
    \<^verbatim>\<open>set\<close> of file names is iterated.
\<close>

record pyenv =
  str_data :: "pydict list \<Rightarrow> string"
  str_float :: "real \<Rightarrow> string"
  relpath :: "string \<Rightarrow> string"
  str_hash :: "string \<Rightarrow> nat"

text \<open>
  \<^verbatim>\<open>
  def calculate_hash(self):
      block_string = "{}{}{}{}{}".format(self.index, self.proof_no, self.prev_hash,
                                         self.data, self.timestamp)
      return hashlib.sha256(block_string.encode()).hexdigest()
  \<close>
\<close>

definition calculate_hash :: "pyenv \<Rightarrow> Block \<Rightarrow> string" where
  "calculate_hash env b =
     sha256_hexdigest (str_int (index b) @ str_int (proof_no b) @ prev_hash b @
                       str_data env (data b) @ str_float env (timestamp b))"

text \<open>
  \<^verbatim>\<open>
  def check_validity(block, prev_block):
      if prev_block.index + 1 != block.index: return False
      elif prev_block.calculate_hash != block.prev_hash: return False
      elif not Blockchain.verifying_proof(block.proof_no, prev_block.proof_no): return False
      return True
  \<close>
\<close>

definition check_validity :: "pyenv \<Rightarrow> Block \<Rightarrow> Block \<Rightarrow> bool" where
  "check_validity env block prev_block =
     (if index prev_block + 1 \<noteq> index block then False
      else if calculate_hash env prev_block \<noteq> prev_hash block then False
      else if \<not> verifying_proof (proof_no block) (proof_no prev_block) then False
      else True)"

section \<open>The chain object and its storage\<close>

text \<open>
  One record holds the attributes of \<^verbatim>\<open>Blockchain\<close> and of its subclasses
  (\<open>file_index\<close> and \<open>users\<close> are those of \<^verbatim>\<open>FileBlockchain\<close>), together with the part
  of the file system the object works on: \<open>disk\<close> maps the path given to \<^verbatim>\<open>open\<close> to the
  pickled block stored there (in directory order), and \<open>access_file\<close> is the content of
  the consolidated file of \<^verbatim>\<open>AccessBlockchain\<close>, if it exists. Directories hold files
  only, and a path is looked up as it is written: the model stands for storage directories
  given by a plain name, as the default ones are, and does not resolve \<open>.\<close>, \<open>..\<close> or
  repeated slashes.
\<close>

record Blockchain =
  chain :: "Block list"
  current_data :: "pydict list"
  chunk_index :: "int \<rightharpoonup> string"
  storage_dir :: string
  chunk_size :: nat
  blockchain_name :: string
  file_index :: "pyval \<rightharpoonup> int"
  users :: "string \<rightharpoonup> string"
  disk :: "(string \<times> Block) list"
  access_file :: "Block list option"

text \<open>\<^verbatim>\<open>os.path.join(a, b)\<close> on POSIX, for two components.\<close>

definition os_path_join :: "string \<Rightarrow> string \<Rightarrow> string" where
  "os_path_join a b =
     (if b \<noteq> [] \<and> hd b = CHR ''/'' then b
      else if a = [] \<or> last a = CHR ''/'' then a @ b
      else a @ ''/'' @ b)"

text \<open>\<^verbatim>\<open>os.path.basename(p)\<close>: what follows the last slash.\<close>

definition basename :: "string \<Rightarrow> string" where
  "basename p = rev (takeWhile (\<lambda>c. c \<noteq> CHR ''/'') (rev p))"

definition startswith :: "string \<Rightarrow> string \<Rightarrow> bool" where
  "startswith s pre = (take (length pre) s = pre)"

text \<open>\<^verbatim>\<open>os.listdir(d)\<close>: the names of the files directly in \<open>d\<close>, in directory order.\<close>

definition listdir :: "string \<Rightarrow> (string \<times> 'a) list \<Rightarrow> string list" where
  "listdir d fs =
     (let pre = os_path_join d []
      in map (drop (length pre))
           (filter (\<lambda>p. startswith p pre \<and> length pre < length p \<and>
                         CHR ''/'' \<notin> set (drop (length pre) p))
                   (map fst fs)))"

text \<open>Writing a file replaces the content at its path, or adds the path.\<close>

fun write_file :: "(string \<times> 'a) list \<Rightarrow> string \<Rightarrow> 'a \<Rightarrow> (string \<times> 'a) list" where
  "write_file [] p v = [(p, v)]"
| "write_file ((q, w) # fs) p v = (if q = p then (p, v) # fs else (q, w) # write_file fs p v)"

text \<open>
  \<^verbatim>\<open>
  def save_block(self, block):
      block_file = os.path.join(self.storage_dir,
                                f'{self.blockchain_name}_block_{block.index}.pkl')
      os.makedirs(os.path.dirname(block_file), exist_ok=True)
      with open(block_file, 'wb') as file:
          pickle.dump(block, file)
      self.chunk_index[block.index] = block_file
  \<close>
  The index entry is the joined path.
\<close>

definition block_file_name :: "string \<Rightarrow> int \<Rightarrow> string" where
  "block_file_name name i = name @ ''_block_'' @ str_int i @ ''.pkl''"

definition save_block :: "Blockchain \<Rightarrow> Block \<Rightarrow> Blockchain" where
  "save_block c block =
     (let block_file = os_path_join (storage_dir c)
                         (block_file_name (blockchain_name c) (index block))
      in c\<lparr>disk := write_file (disk c) block_file block,
           chunk_index := (chunk_index c)(index block \<mapsto> block_file)\<rparr>)"

text \<open>
  \<^verbatim>\<open>
  def construct_block(self, proof_no, prev_hash):
      block = Block(index=len(self.chain), proof_no=proof_no, prev_hash=prev_hash,
                    data=self.current_data)
      self.current_data = []
      self.chain.append(block)
      self.save_block(block)
      return block
  \<close>
  (BlockChainBackup.py). The block takes its timestamp from the clock, read as \<open>now\<close>.
\<close>

definition construct_block :: "Blockchain \<Rightarrow> int \<Rightarrow> string \<Rightarrow> real \<Rightarrow> Blockchain \<times> Block" where
  "construct_block c proof prev now =
     (let block = \<lparr>index = int (length (chain c)), proof_no = proof, prev_hash = prev,
                   data = current_data c, timestamp = now\<rparr>
      in (save_block (c\<lparr>current_data := [], chain := chain c @ [block]\<rparr>) block, block))"

definition construct_genesis :: "Blockchain \<Rightarrow> real \<Rightarrow> Blockchain" where
  "construct_genesis c now = fst (construct_block c 0 ''0'' now)"

text \<open>
  \<^verbatim>\<open>
  def load_block(self, block_file):
      with open(os.path.join(self.storage_dir, block_file), 'rb') as file:
          return pickle.load(file)
  \<close>
\<close>

definition load_block :: "Blockchain \<Rightarrow> string \<Rightarrow> py_error + Block" where
  "load_block c block_file =
     (case map_of (disk c) (os_path_join (storage_dir c) block_file) of
        None \<Rightarrow> Inl FileNotFoundError
      | Some b \<Rightarrow> Inr b)"

text \<open>
  \<^verbatim>\<open>
  def load_chain(self):
      block_files = sorted([f for f in os.listdir(self.storage_dir)
                            if f.startswith(f'{self.blockchain_name}_block_')])
      self.chain = []
      self.chunk_index = {}
      for block_file in block_files:
          with open(os.path.join(self.storage_dir, block_file), 'rb') as file:
              block = pickle.load(file)
              self.chain.append(block)
              self.chunk_index[block.index] = block_file
      if not self.chain:
          self.construct_genesis()
  \<close>
  (BlockChainBackup.py). \<^verbatim>\<open>sorted\<close> on strings is the lexicographic order of the
  characters. The index entry is the bare file name.
\<close>

fun load_files :: "Blockchain \<Rightarrow> string list \<Rightarrow> py_error + Blockchain" where
  "load_files c [] = Inr c"
| "load_files c (block_file # rest) =
     (case load_block c block_file of
        Inl e \<Rightarrow> Inl e
      | Inr block \<Rightarrow>
          load_files (c\<lparr>chain := chain c @ [block],
                        chunk_index := (chunk_index c)(index block \<mapsto> block_file)\<rparr>) rest)"

definition block_files_of :: "Blockchain \<Rightarrow> string list" where
  "block_files_of c =
     filter (\<lambda>f. startswith f (blockchain_name c @ ''_block_''))
            (listdir (storage_dir c) (disk c))"

definition load_chain :: "Blockchain \<Rightarrow> real \<Rightarrow> py_error + Blockchain" where
  "load_chain c now =
     (case load_files (c\<lparr>chain := [], chunk_index := Map.empty\<rparr>) (sort (block_files_of c)) of
        Inl e \<Rightarrow> Inl e
      | Inr c' \<Rightarrow> if chain c' = [] then Inr (construct_genesis c' now) else Inr c')"

text \<open>\<^verbatim>\<open>Blockchain.__init__\<close>: empty attributes, then \<^verbatim>\<open>load_chain\<close>.\<close>

definition new_object :: "string \<Rightarrow> nat \<Rightarrow> string \<Rightarrow> (string \<times> Block) list \<Rightarrow> Blockchain" where
  "new_object sdir csize name fs =
     \<lparr>chain = [], current_data = [], chunk_index = Map.empty, storage_dir = sdir,
      chunk_size = csize, blockchain_name = name, file_index = Map.empty,
      users = Map.empty, disk = fs, access_file = None\<rparr>"

definition Blockchain_init ::
  "string \<Rightarrow> nat \<Rightarrow> string \<Rightarrow> (string \<times> Block) list \<Rightarrow> real \<Rightarrow> py_error + Blockchain" where
  "Blockchain_init sdir csize name fs now = load_chain (new_object sdir csize name fs) now"

text \<open>\<^verbatim>\<open>latest_block\<close> is \<^verbatim>\<open>self.chain[-1]\<close>, an IndexError on an empty chain.\<close>

definition latest_block :: "Blockchain \<Rightarrow> py_error + Block" where
  "latest_block c = (if chain c = [] then Inl IndexError else Inr (last (chain c)))"

text \<open>
  \<^verbatim>\<open>
  def load_adjacent_blocks(self, block_index):
      blocks_to_load = set()
      if block_index in self.chunk_index:
          blocks_to_load.add(self.chunk_index[block_index])
      if block_index > 0 and (block_index - 1) in self.chunk_index:
          blocks_to_load.add(self.chunk_index[block_index - 1])
      if (block_index + 1) in self.chunk_index:
          blocks_to_load.add(self.chunk_index[block_index + 1])
      loaded_blocks = []
      for block_file in blocks_to_load:
          loaded_blocks.append(self.load_block(block_file))
      return loaded_blocks
  \<close>
  The set is iterated in the order of the string hashes of its elements.
\<close>

definition blocks_to_load :: "Blockchain \<Rightarrow> int \<Rightarrow> string list" where
  "blocks_to_load c block_index =
     (let s0 = (case chunk_index c block_index of Some f \<Rightarrow> [f] | None \<Rightarrow> []);
          s1 = (if block_index > 0
                then (case chunk_index c (block_index - 1) of Some f \<Rightarrow> s0 @ [f] | None \<Rightarrow> s0)
                else s0);
          s2 = (case chunk_index c (block_index + 1) of Some f \<Rightarrow> s1 @ [f] | None \<Rightarrow> s1)
      in remdups s2)"

fun load_blocks :: "Blockchain \<Rightarrow> string list \<Rightarrow> py_error + Block list" where
  "load_blocks c [] = Inr []"
| "load_blocks c (block_file # rest) =
     (case load_block c block_file of
        Inl e \<Rightarrow> Inl e
      | Inr block \<Rightarrow>
          (case load_blocks c rest of Inl e \<Rightarrow> Inl e | Inr blocks \<Rightarrow> Inr (block # blocks)))"

definition load_adjacent_blocks :: "pyenv \<Rightarrow> Blockchain \<Rightarrow> int \<Rightarrow> py_error + Block list" where
  "load_adjacent_blocks env c block_index =
     load_blocks c (sort_key (str_hash env) (blocks_to_load c block_index))"

text \<open>
  \<^verbatim>\<open>
  def verify_chain_integrity(self, target_block_index):
      loaded_blocks = self.load_adjacent_blocks(target_block_index)
      blocks = {block.index: block for block in loaded_blocks}
      if target_block_index in blocks:
          target_block = blocks[target_block_index]
          prev_block = blocks.get(target_block_index - 1)
          next_block = blocks.get(target_block_index + 1)
          if prev_block and not self.check_validity(target_block, prev_block):
              return False
          if next_block and not self.check_validity(next_block, target_block):
              return False
          return True
      return False
  \<close>
  (BlockChainBackup.py). In the dict comprehension a later block replaces an earlier one
  of the same index.
\<close>

definition blocks_by_index :: "Block list \<Rightarrow> (int \<rightharpoonup> Block)" where
  "blocks_by_index loaded = map_of (rev (map (\<lambda>b. (index b, b)) loaded))"

definition verify_chain_integrity :: "pyenv \<Rightarrow> Blockchain \<Rightarrow> int \<Rightarrow> py_error + bool" where
  "verify_chain_integrity env c target_block_index =
     (case load_adjacent_blocks env c target_block_index of
        Inl e \<Rightarrow> Inl e
      | Inr loaded_blocks \<Rightarrow>
          (let blocks = blocks_by_index loaded_blocks
           in case blocks target_block_index of
                None \<Rightarrow> Inr False
              | Some target_block \<Rightarrow>
                  (case blocks (target_block_index - 1) of
                     Some prev_block \<Rightarrow>
                       if \<not> check_validity env target_block prev_block then Inr False
                       else (case blocks (target_block_index + 1) of
                               Some next_block \<Rightarrow>
                                 Inr (check_validity env next_block target_block)
                             | None \<Rightarrow> Inr True)
                   | None \<Rightarrow>
                       (case blocks (target_block_index + 1) of
                          Some next_block \<Rightarrow> Inr (check_validity env next_block target_block)
                        | None \<Rightarrow> Inr True))))"

section \<open>Sealing the pending buffer\<close>

text \<open>
  A call that may run forever returns \<open>None\<close> when it does; otherwise it returns the
  object as the call leaves it, with the exception raised or the value returned.
\<close>

type_synonym 'a outcome = "(Blockchain \<times> (py_error + 'a)) option"

text \<open>
  The three writers of BlockChainBackup.py end with the same statement,
  \<^verbatim>\<open>
  self.construct_block(self.proof_of_work(self.latest_block.proof_no),
                       self.latest_block.calculate_hash)
  \<close>
  which reads the tail, searches the proof, hashes the tail and appends the block.
\<close>

definition seal :: "pyenv \<Rightarrow> Blockchain \<Rightarrow> real \<Rightarrow> Block outcome" where
  "seal env c now =
     (case latest_block c of
        Inl e \<Rightarrow> Some (c, Inl e)
      | Inr tail \<Rightarrow>
          (case proof_of_work (proof_no tail) of
             None \<Rightarrow> None
           | Some p \<Rightarrow>
               (let (c', block) = construct_block c p (calculate_hash env tail) now
                in Some (c', Inr block))))"

section \<open>The access chain\<close>

text \<open>
  \<^verbatim>\<open>
  def grant_access(self, file_name, owner, user_to_share):
      self.current_data.append({'file_name': file_name, 'owner': owner,
          'user_to_share': user_to_share,
          'timestamp': datetime.now().strftime('%Y-%m-%d %H:%M:%S')})
      self.construct_block(self.proof_of_work(self.latest_block.proof_no),
                           self.latest_block.calculate_hash)
  \<close>
  The formatted time is the argument \<open>stamp\<close>.
\<close>

definition grant_record :: "string \<Rightarrow> string \<Rightarrow> string \<Rightarrow> string \<Rightarrow> pydict" where
  "grant_record file_name owner user_to_share stamp =
     [(''file_name'', Str file_name), (''owner'', Str owner),
      (''user_to_share'', Str user_to_share), (''timestamp'', Str stamp)]"

definition grant_access ::
  "pyenv \<Rightarrow> Blockchain \<Rightarrow> string \<Rightarrow> string \<Rightarrow> string \<Rightarrow> string \<Rightarrow> real \<Rightarrow> unit outcome" where
  "grant_access env c file_name owner user_to_share stamp now =
     (case seal env
             (c\<lparr>current_data := current_data c @
                   [grant_record file_name owner user_to_share stamp]\<rparr>) now of
        None \<Rightarrow> None
      | Some (c', Inl e) \<Rightarrow> Some (c', Inl e)
      | Some (c', Inr block) \<Rightarrow> Some (c', Inr ()))"

text \<open>
  \<^verbatim>\<open>
  def has_access(self, file_name, user):
      for block in self.chain:
          for data in block.data:
              if os.path.basename(data['file_name']) == os.path.basename(file_name) \
                 and (data['user_to_share'] == user or data['owner'] == user):
                  return True
      return False
  \<close>
  A missing key raises KeyError, and the base name of a value that is no string TypeError.
\<close>

fun has_access_scan :: "pydict list \<Rightarrow> string \<Rightarrow> string \<Rightarrow> py_error + bool" where
  "has_access_scan [] file_name user = Inr False"
| "has_access_scan (d # rest) file_name user =
     (case map_of d ''file_name'' of
        None \<Rightarrow> Inl KeyError
      | Some (Dicts l) \<Rightarrow> Inl TypeError
      | Some (Str f) \<Rightarrow>
          if basename f = basename file_name then
            (case map_of d ''user_to_share'' of
               None \<Rightarrow> Inl KeyError
             | Some u \<Rightarrow>
                 if u = Str user then Inr True
                 else (case map_of d ''owner'' of
                         None \<Rightarrow> Inl KeyError
                       | Some ow \<Rightarrow>
                           if ow = Str user then Inr True
                           else has_access_scan rest file_name user))
          else has_access_scan rest file_name user)"

definition has_access :: "Blockchain \<Rightarrow> string \<Rightarrow> string \<Rightarrow> py_error + bool" where
  "has_access c file_name user = has_access_scan (concat (map data (chain c))) file_name user"

text \<open>
  \<^verbatim>\<open>save_access_chain\<close> pickles the whole chain into the consolidated file;
  \<^verbatim>\<open>load_access_chain\<close> reads it back when it exists, and makes a genesis block when the
  chain is empty afterwards.
\<close>

definition save_access_chain :: "Blockchain \<Rightarrow> Blockchain" where
  "save_access_chain c = c\<lparr>access_file := Some (chain c)\<rparr>"

definition load_access_chain :: "Blockchain \<Rightarrow> real \<Rightarrow> Blockchain" where
  "load_access_chain c now =
     (let c' = (case access_file c of Some blocks \<Rightarrow> c\<lparr>chain := blocks\<rparr> | None \<Rightarrow> c)
      in if chain c' = [] then construct_genesis c' now else c')"

section \<open>The index chain\<close>

text \<open>
  \<^verbatim>\<open>
  def update_index(self, file_list):
      self.current_data.append({'file_list': file_list,
          'timestamp': datetime.now().strftime('%Y-%m-%d %H:%M:%S')})
      self.construct_block(self.proof_of_work(self.latest_block.proof_no),
                           self.latest_block.calculate_hash)
  \<close>
\<close>

definition update_index ::
  "pyenv \<Rightarrow> Blockchain \<Rightarrow> pydict list \<Rightarrow> string \<Rightarrow> real \<Rightarrow> unit outcome" where
  "update_index env c file_list stamp now =
     (case seal env
             (c\<lparr>current_data := current_data c @
                   [[(''file_list'', Dicts file_list), (''timestamp'', Str stamp)]]\<rparr>) now of
        None \<Rightarrow> None
      | Some (c', Inl e) \<Rightarrow> Some (c', Inl e)
      | Some (c', Inr block) \<Rightarrow> Some (c', Inr ()))"

section \<open>The content chain\<close>

text \<open>\<^verbatim>\<open>bytes.hex()\<close> and \<^verbatim>\<open>bytes.fromhex\<close>; a byte is a \<open>char\<close>.\<close>

definition bytes_hex :: "string \<Rightarrow> string" where
  "bytes_hex bs = concat (map (\<lambda>c. [hex_digit (of_char c div 16), hex_digit (of_char c mod 16)]) bs)"

definition hex_value :: "char \<Rightarrow> nat option" where
  "hex_value c =
     (if c \<in> set ''0123456789'' then Some (of_char c - 48)
      else if c \<in> set ''abcdef'' then Some (of_char c - 87)
      else if c \<in> set ''ABCDEF'' then Some (of_char c - 55)
      else None)"

definition is_space :: "char \<Rightarrow> bool" where
  "is_space c = (of_char c \<in> {9, 10, 11, 12, 13, (32::nat)})"

fun bytes_fromhex :: "string \<Rightarrow> py_error + string" where
  "bytes_fromhex [] = Inr []"
| "bytes_fromhex [c] = (if is_space c then Inr [] else Inl ValueError)"
| "bytes_fromhex (c # d # rest) =
     (if is_space c then bytes_fromhex (d # rest)
      else (case (hex_value c, hex_value d) of
              (Some h, Some l) \<Rightarrow>
                (case bytes_fromhex rest of
                   Inl e \<Rightarrow> Inl e
                 | Inr bs \<Rightarrow> Inr (char_of (16 * h + l) # bs))
            | _ \<Rightarrow> Inl ValueError))"

text \<open>
  \<^verbatim>\<open>
  def update_file_index(self):
      self.file_index = {}
      for block in self.chain:
          for data in block.data:
              if 'file_name' in data:
                  self.file_index[data['file_name']] = block.index
  \<close>
\<close>

definition index_records :: "(pyval \<rightharpoonup> int) \<Rightarrow> Block \<Rightarrow> (pyval \<rightharpoonup> int)" where
  "index_records fi block =
     foldl (\<lambda>m d. case map_of d ''file_name'' of Some v \<Rightarrow> m(v \<mapsto> index block) | None \<Rightarrow> m)
           fi (data block)"

definition update_file_index :: "Blockchain \<Rightarrow> Blockchain" where
  "update_file_index c = c\<lparr>file_index := foldl index_records Map.empty (chain c)\<rparr>"

text \<open>
  \<^verbatim>\<open>
  def get_file_list(self):
      file_list = []
      for block in self.chain:
          for data in block.data:
              if 'file_name' in data:
                  file_list.append({'file_name': data['file_name'],
                                    'owner': data['owner'], 'file_date': data['file_date']})
      return file_list
  \<close>
\<close>

fun file_list_scan :: "pydict list \<Rightarrow> py_error + pydict list" where
  "file_list_scan [] = Inr []"
| "file_list_scan (d # rest) =
     (case map_of d ''file_name'' of
        None \<Rightarrow> file_list_scan rest
      | Some f \<Rightarrow>
          (case (map_of d ''owner'', map_of d ''file_date'') of
             (Some ow, Some dt) \<Rightarrow>
               (case file_list_scan rest of
                  Inl e \<Rightarrow> Inl e
                | Inr l \<Rightarrow> Inr ([(''file_name'', f), (''owner'', ow), (''file_date'', dt)] # l))
           | _ \<Rightarrow> Inl KeyError))"

definition get_file_list :: "Blockchain \<Rightarrow> py_error + pydict list" where
  "get_file_list c = file_list_scan (concat (map data (chain c)))"

definition file_record :: "string \<Rightarrow> string \<Rightarrow> string \<Rightarrow> string \<Rightarrow> pydict" where
  "file_record relative_path file_date file_content owner =
     [(''file_name'', Str relative_path), (''file_date'', Str file_date),
      (''file_content'', Str (bytes_hex file_content)), (''owner'', Str owner)]"

text \<open>
  \<^verbatim>\<open>
  def add_file(self, file_path, file_date, file_content, owner,
               access_blockchain, index_blockchain):
      relative_path = os.path.relpath(file_path, start=os.getcwd())
      self.current_data.append({'file_name': relative_path, 'file_date': file_date,
                                'file_content': file_content.hex(), 'owner': owner})
      self.construct_block(self.proof_of_work(self.latest_block.proof_no),
                           self.latest_block.calculate_hash)
      self.update_file_index()
      access_blockchain.grant_access(relative_path, owner, owner)
      access_blockchain.save_access_chain()
      index_blockchain.update_index(self.get_file_list())
  \<close>
  (BlockChainBackup.py). The call works on three objects; the model returns all three.
  The clock is read three times for block timestamps (\<open>now\<close>, \<open>now_a\<close>, \<open>now_i\<close>) and
  twice for formatted times (\<open>stamp_a\<close>, \<open>stamp_i\<close>).
\<close>

type_synonym chains = "Blockchain \<times> Blockchain \<times> Blockchain"

definition add_file ::
  "pyenv \<Rightarrow> chains \<Rightarrow> string \<Rightarrow> string \<Rightarrow> string \<Rightarrow> string \<Rightarrow>
   real \<Rightarrow> string \<Rightarrow> real \<Rightarrow> string \<Rightarrow> real \<Rightarrow> (chains \<times> (py_error + unit)) option" where
  "add_file env cs file_path file_date file_content owner now stamp_a now_a stamp_i now_i =
     (let (fc, ac, ic) = cs;
          relative_path = relpath env file_path
      in case seal env (fc\<lparr>current_data := current_data fc @
                           [file_record relative_path file_date file_content owner]\<rparr>) now of
           None \<Rightarrow> None
         | Some (fc1, Inl e) \<Rightarrow> Some ((fc1, ac, ic), Inl e)
         | Some (fc1, Inr block) \<Rightarrow>
             (let fc2 = update_file_index fc1
              in case grant_access env ac relative_path owner owner stamp_a now_a of
                   None \<Rightarrow> None
                 | Some (ac1, Inl e) \<Rightarrow> Some ((fc2, ac1, ic), Inl e)
                 | Some (ac1, Inr u) \<Rightarrow>
                     (let ac2 = save_access_chain ac1
                      in case get_file_list fc2 of
                           Inl e \<Rightarrow> Some ((fc2, ac2, ic), Inl e)
                         | Inr file_list \<Rightarrow>
                             (case update_index env ic file_list stamp_i now_i of
                                None \<Rightarrow> None
                              | Some (ic1, Inl e) \<Rightarrow> Some ((fc2, ac2, ic1), Inl e)
                              | Some (ic1, Inr u') \<Rightarrow> Some ((fc2, ac2, ic1), Inr ())))))"

text \<open>
  \<^verbatim>\<open>
  def get_file_content(self, file_name, owner, is_shared=False):
      if file_name not in self.file_index:
          return None
      block_index = self.file_index[file_name]
      if not self.verify_chain_integrity(block_index):
          return None
      loaded_blocks = self.load_adjacent_blocks(block_index)
      for block in loaded_blocks:
          for data in block.data:
              if data['file_name'] == file_name and (data['owner'] == owner or is_shared):
                  return bytes.fromhex(data['file_content'])
      return None
  \<close>
  (BlockChainBackup.py).
\<close>

fun content_scan :: "pydict list \<Rightarrow> string \<Rightarrow> string \<Rightarrow> bool \<Rightarrow> py_error + string option" where
  "content_scan [] file_name owner is_shared = Inr None"
| "content_scan (d # rest) file_name owner is_shared =
     (case map_of d ''file_name'' of
        None \<Rightarrow> Inl KeyError
      | Some f \<Rightarrow>
          if f = Str file_name then
            (case map_of d ''owner'' of
               None \<Rightarrow> Inl KeyError
             | Some ow \<Rightarrow>
                 if ow = Str owner \<or> is_shared then
                   (case map_of d ''file_content'' of
                      None \<Rightarrow> Inl KeyError
                    | Some (Dicts l) \<Rightarrow> Inl TypeError
                    | Some (Str h) \<Rightarrow>
                        (case bytes_fromhex h of Inl e \<Rightarrow> Inl e | Inr bs \<Rightarrow> Inr (Some bs)))
                 else content_scan rest file_name owner is_shared)
          else content_scan rest file_name owner is_shared)"

definition get_file_content ::
  "pyenv \<Rightarrow> Blockchain \<Rightarrow> string \<Rightarrow> string \<Rightarrow> bool \<Rightarrow> py_error + string option" where
  "get_file_content env c file_name owner is_shared =
     (case file_index c (Str file_name) of
        None \<Rightarrow> Inr None
      | Some block_index \<Rightarrow>
          (case verify_chain_integrity env c block_index of
             Inl e \<Rightarrow> Inl e
           | Inr ok \<Rightarrow>
               if \<not> ok then Inr None
               else (case load_adjacent_blocks env c block_index of
                       Inl e \<Rightarrow> Inl e
                     | Inr loaded_blocks \<Rightarrow>
                         content_scan (concat (map data loaded_blocks))
                                      file_name owner is_shared)))"

text \<open>
  \<^verbatim>\<open>
  def register_user(self, username, password):
      if username in self.users:
          return False
      self.users[username] = hashlib.sha256(password.encode()).hexdigest()
      return True
  \<close>
  (BlockChainBackup.py).
\<close>

definition register_user :: "Blockchain \<Rightarrow> string \<Rightarrow> string \<Rightarrow> Blockchain \<times> bool" where
  "register_user c username password =
     (if users c username \<noteq> None then (c, False)
      else (c\<lparr>users := (users c)(username \<mapsto> sha256_hexdigest password)\<rparr>, True))"

definition authenticate_user :: "Blockchain \<Rightarrow> string \<Rightarrow> string \<Rightarrow> bool" where
  "authenticate_user c username password =
     (case users c username of
        None \<Rightarrow> False
      | Some h \<Rightarrow> h = sha256_hexdigest password)"

text \<open>\<^verbatim>\<open>FileBlockchain.__init__\<close> of BlockChainBackup.py.\<close>

definition FileBlockchain_init ::
  "string \<Rightarrow> nat \<Rightarrow> string \<Rightarrow> (string \<times> Block) list \<Rightarrow> real \<Rightarrow> py_error + Blockchain" where
  "FileBlockchain_init sdir csize name fs now =
     (case Blockchain_init sdir csize name fs now of
        Inl e \<Rightarrow> Inl e
      | Inr c \<Rightarrow> Inr (update_file_index (c\<lparr>file_index := Map.empty, users := Map.empty\<rparr>)))"

definition AccessBlockchain_init ::
  "string \<Rightarrow> nat \<Rightarrow> string \<Rightarrow> (string \<times> Block) list \<Rightarrow> Block list option \<Rightarrow> real \<Rightarrow> real \<Rightarrow>
   py_error + Blockchain" where
  "AccessBlockchain_init sdir csize name fs saved now now' =
     (case Blockchain_init sdir csize name fs now of
        Inl e \<Rightarrow> Inl e
      | Inr c \<Rightarrow> Inr (load_access_chain (c\<lparr>access_file := saved\<rparr>) now'))"

section \<open>The variant of main.py\<close>

text \<open>
  main.py repeats the classes of BlockChainBackup.py and changes some methods. The changed
  methods are modelled under the prefix \<open>main_\<close>; the others (\<open>check_validity\<close>,
  \<open>proof_of_work\<close>, \<open>verifying_proof\<close>, \<open>save_block\<close>, \<open>load_block\<close>,
  \<open>load_adjacent_blocks\<close>, \<open>has_access\<close>, \<open>authenticate_user\<close>) are the same text.

  \<^verbatim>\<open>
  def verify_chain_integrity(self):
      for index in range(1, len(self.chain)):
          prev_block = self.chain[index - 1]
          current_block = self.chain[index]
          if not self.check_validity(current_block, prev_block):
              return False
      return True
  \<close>
\<close>

definition main_verify_chain_integrity :: "pyenv \<Rightarrow> Blockchain \<Rightarrow> bool" where
  "main_verify_chain_integrity env c =
     list_all (\<lambda>i. check_validity env (chain c ! i) (chain c ! (i - 1))) [1..<length (chain c)]"

text \<open>
  \<^verbatim>\<open>
  def construct_block(self, proof_no, prev_hash):
      expected_index = len(self.chain)
      if self.chain:
          prev_block = self.latest_block
          if prev_block.index + 1 != expected_index:
              raise ValueError(...)
      block = Block(index=expected_index, proof_no=proof_no, prev_hash=prev_hash,
                    data=self.current_data)
      self.current_data = []
      self.chain.append(block)
      self.save_block(block)
      if not self.verify_chain_integrity():
          raise ValueError(...)
      return block
  \<close>
  The second exception leaves the block appended and saved.
\<close>

definition main_construct_block ::
  "pyenv \<Rightarrow> Blockchain \<Rightarrow> int \<Rightarrow> string \<Rightarrow> real \<Rightarrow> Blockchain \<times> (py_error + Block)" where
  "main_construct_block env c proof prev now =
     (let expected_index = int (length (chain c))
      in if chain c \<noteq> [] \<and> index (last (chain c)) + 1 \<noteq> expected_index
         then (c, Inl ValueError)
         else
           (let block = \<lparr>index = expected_index, proof_no = proof, prev_hash = prev,
                         data = current_data c, timestamp = now\<rparr>;
                c' = save_block (c\<lparr>current_data := [], chain := chain c @ [block]\<rparr>) block
            in if \<not> main_verify_chain_integrity env c' then (c', Inl ValueError)
               else (c', Inr block)))"

definition main_construct_genesis ::
  "pyenv \<Rightarrow> Blockchain \<Rightarrow> real \<Rightarrow> Blockchain \<times> (py_error + Block)" where
  "main_construct_genesis env c now = main_construct_block env c 0 ''0'' now"

text \<open>
  \<^verbatim>\<open>
  def extract_block_index(filename):
      return int(filename.split('_block_')[-1].split('.')[0])
  \<close>
  \<^verbatim>\<open>str.split(sep)\<close> cuts at the occurrences of \<open>sep\<close> found from the left.
  \<^verbatim>\<open>int(s)\<close> takes surrounding white space, a sign, and ASCII digits with single
  underscores between them (digits outside ASCII are left out of the model).
\<close>

fun split_from :: "string \<Rightarrow> string \<Rightarrow> string \<Rightarrow> string list" where
  "split_from sep acc [] = [rev acc]"
| "split_from sep acc (c # cs) =
     (if sep \<noteq> [] \<and> startswith (c # cs) sep
      then rev acc # split_from sep [] (drop (length sep - 1) cs)
      else split_from sep (c # acc) cs)"

definition split_str :: "string \<Rightarrow> string \<Rightarrow> string list" where
  "split_str s sep = split_from sep [] s"

definition is_digit :: "char \<Rightarrow> bool" where
  "is_digit c = (48 \<le> (of_char c :: nat) \<and> (of_char c :: nat) \<le> 57)"

fun digits_ok :: "string \<Rightarrow> bool" where
  "digits_ok [] = False"
| "digits_ok [c] = is_digit c"
| "digits_ok (c # d # rest) =
     (is_digit c \<and> (if d = CHR ''_'' then digits_ok rest else digits_ok (d # rest)))"

definition digits_value :: "string \<Rightarrow> nat" where
  "digits_value s = foldl (\<lambda>n c. 10 * n + (of_char c - 48)) 0 (filter is_digit s)"

definition py_int :: "string \<Rightarrow> py_error + int" where
  "py_int s =
     (let t = rev (dropWhile is_space (rev (dropWhile is_space s)));
          neg = (t \<noteq> [] \<and> hd t = CHR ''-'');
          u = (if t \<noteq> [] \<and> (hd t = CHR ''-'' \<or> hd t = CHR ''+'') then tl t else t)
      in if digits_ok u
         then Inr (if neg then - int (digits_value u) else int (digits_value u))
         else Inl ValueError)"

definition extract_block_index :: "string \<Rightarrow> py_error + int" where
  "extract_block_index filename =
     py_int (hd (split_str (last (split_str filename ''_block_'')) ''.''))"

text \<open>
  \<^verbatim>\<open>
  def load_chain(self):
      block_files = sorted([f for f in os.listdir(self.storage_dir)
                            if f.startswith(f'{self.blockchain_name}_block_')],
                           key=extract_block_index)
      self.chain = []
      self.chunk_index = {}
      for block_file in block_files:
          with open(os.path.join(self.storage_dir, block_file), 'rb') as file:
              block = pickle.load(file)
              if self.chain and not self.check_validity(block, self.chain[-1]):
                  raise ValueError(...)
              self.chain.append(block)
              self.chunk_index[block.index] = block_file
      if not self.chain:
          self.construct_genesis()
      if not self.verify_chain_integrity():
          raise ValueError(...)
  \<close>
  (main.py). \<^verbatim>\<open>sorted\<close> with a key is stable, and raises when a key cannot be computed.
\<close>

fun sort_keys :: "string list \<Rightarrow> py_error + (int \<times> string) list" where
  "sort_keys [] = Inr []"
| "sort_keys (f # fs) =
     (case extract_block_index f of
        Inl e \<Rightarrow> Inl e
      | Inr k \<Rightarrow> (case sort_keys fs of Inl e \<Rightarrow> Inl e | Inr l \<Rightarrow> Inr ((k, f) # l)))"

fun main_load_files ::
  "pyenv \<Rightarrow> Blockchain \<Rightarrow> string list \<Rightarrow> Blockchain \<times> (py_error + unit)" where
  "main_load_files env c [] = (c, Inr ())"
| "main_load_files env c (block_file # rest) =
     (case load_block c block_file of
        Inl e \<Rightarrow> (c, Inl e)
      | Inr block \<Rightarrow>
          if chain c \<noteq> [] \<and> \<not> check_validity env block (last (chain c))
          then (c, Inl ValueError)
          else main_load_files env
                 (c\<lparr>chain := chain c @ [block],
                    chunk_index := (chunk_index c)(index block \<mapsto> block_file)\<rparr>) rest)"

definition main_load_chain ::
  "pyenv \<Rightarrow> Blockchain \<Rightarrow> real \<Rightarrow> Blockchain \<times> (py_error + unit)" where
  "main_load_chain env c now =
     (case sort_keys (block_files_of c) of
        Inl e \<Rightarrow> (c, Inl e)
      | Inr keyed \<Rightarrow>
          (case main_load_files env (c\<lparr>chain := [], chunk_index := Map.empty\<rparr>)
                  (map snd (sort_key fst keyed)) of
             (c1, Inl e) \<Rightarrow> (c1, Inl e)
           | (c1, Inr u) \<Rightarrow>
               (case (if chain c1 = [] then main_construct_genesis env c1 now
                      else (c1, Inr (last (chain c1)))) of
                  (c2, Inl e) \<Rightarrow> (c2, Inl e)
                | (c2, Inr b) \<Rightarrow>
                    if \<not> main_verify_chain_integrity env c2 then (c2, Inl ValueError)
                    else (c2, Inr ()))))"

text \<open>
  \<^verbatim>\<open>
  def add_user(self, username, password):
      password_hash = hashlib.sha256(password.encode()).hexdigest()
      self.current_data.append({'username': username, 'password_hash': password_hash})
      proof_no = self.proof_of_work(self.latest_block.proof_no)
      self.construct_block(proof_no, self.latest_block.calculate_hash)
      self.users[username] = password_hash

  def register_user(self, username, password):
      if username in self.users:
          return False
      self.add_user(username, password)
      return True
  \<close>
  (main.py).
\<close>

definition main_seal :: "pyenv \<Rightarrow> Blockchain \<Rightarrow> real \<Rightarrow> Block outcome" where
  "main_seal env c now =
     (case latest_block c of
        Inl e \<Rightarrow> Some (c, Inl e)
      | Inr tail \<Rightarrow>
          (case proof_of_work (proof_no tail) of
             None \<Rightarrow> None
           | Some p \<Rightarrow> Some (main_construct_block env c p (calculate_hash env tail) now)))"

definition user_record :: "string \<Rightarrow> string \<Rightarrow> pydict" where
  "user_record username password_hash =
     [(''username'', Str username), (''password_hash'', Str password_hash)]"

definition main_add_user :: "pyenv \<Rightarrow> Blockchain \<Rightarrow> string \<Rightarrow> string \<Rightarrow> real \<Rightarrow> unit outcome" where
  "main_add_user env c username password now =
     (let password_hash = sha256_hexdigest password
      in case main_seal env
                (c\<lparr>current_data := current_data c @ [user_record username password_hash]\<rparr>)
                now of
           None \<Rightarrow> None
         | Some (c', Inl e) \<Rightarrow> Some (c', Inl e)
         | Some (c', Inr block) \<Rightarrow>
             Some (c'\<lparr>users := (users c')(username \<mapsto> password_hash)\<rparr>, Inr ()))"

definition main_register_user ::
  "pyenv \<Rightarrow> Blockchain \<Rightarrow> string \<Rightarrow> string \<Rightarrow> real \<Rightarrow> bool outcome" where
  "main_register_user env c username password now =
     (if users c username \<noteq> None then Some (c, Inr False)
      else (case main_add_user env c username password now of
              None \<Rightarrow> None
            | Some (c', Inl e) \<Rightarrow> Some (c', Inl e)
            | Some (c', Inr u) \<Rightarrow> Some (c', Inr True)))"

text \<open>
  \<^verbatim>\<open>
  def get_file_content(self, file_name, owner, is_shared=False):
      if file_name not in self.file_index:
          return None
      block_index = self.file_index[file_name]
      if not self.verify_chain_integrity():
          return None
      loaded_blocks = self.load_adjacent_blocks(block_index)
      for block in loaded_blocks:
          for data in block.data:
              if data['file_name'] == file_name and (data['owner'] == owner or is_shared):
                  return bytes.fromhex(data['file_content'])
      return None
  \<close>
  (main.py).
\<close>

definition main_get_file_content ::
  "pyenv \<Rightarrow> Blockchain \<Rightarrow> string \<Rightarrow> string \<Rightarrow> bool \<Rightarrow> py_error + string option" where
  "main_get_file_content env c file_name owner is_shared =
     (case file_index c (Str file_name) of
        None \<Rightarrow> Inr None
      | Some block_index \<Rightarrow>
          if \<not> main_verify_chain_integrity env c then Inr None
          else (case load_adjacent_blocks env c block_index of
                  Inl e \<Rightarrow> Inl e
                | Inr loaded_blocks \<Rightarrow>
                    content_scan (concat (map data loaded_blocks))
                                 file_name owner is_shared))"

section \<open>States reached from a new chain\<close>

text \<open>
  The states of a chain object that starts on a storage directory without block files (so
  its constructor makes the genesis block), after any sequence of calls of the writers of
  BlockChainBackup.py and of \<open>register_user\<close> of main.py (which seals through
  \<open>add_user\<close>). \<open>add_file\<close> is followed on the content chain; the two chains it is
  handed are written by \<open>grant_access\<close>, \<open>save_access_chain\<close> and \<open>update_index\<close>.
  A writer that raises leaves a state as well.
\<close>

inductive reachable :: "pyenv \<Rightarrow> Blockchain \<Rightarrow> bool" for env :: pyenv where
  init:
    "block_files_of (new_object sdir csize name fs) = [] \<Longrightarrow>
     Blockchain_init sdir csize name fs now = Inr c \<Longrightarrow> reachable env c"
| file_init:
    "block_files_of (new_object sdir csize name fs) = [] \<Longrightarrow>
     FileBlockchain_init sdir csize name fs now = Inr c \<Longrightarrow> reachable env c"
| access_init:
    "block_files_of (new_object sdir csize name fs) = [] \<Longrightarrow>
     AccessBlockchain_init sdir csize name fs None now now' = Inr c \<Longrightarrow> reachable env c"
| add_file:
    "reachable env fc \<Longrightarrow>
     add_file env (fc, ac, ic) file_path file_date file_content owner
       now stamp_a now_a stamp_i now_i = Some ((fc', ac', ic'), r) \<Longrightarrow>
     reachable env fc'"
| grant_access:
    "reachable env c \<Longrightarrow>
     grant_access env c file_name owner user_to_share stamp now = Some (c', r) \<Longrightarrow>
     reachable env c'"
| save_access_chain:
    "reachable env c \<Longrightarrow> reachable env (save_access_chain c)"
| update_index:
    "reachable env c \<Longrightarrow>
     update_index env c file_list stamp now = Some (c', r) \<Longrightarrow> reachable env c'"
| register_user:
    "reachable env c \<Longrightarrow> reachable env (fst (register_user c username password))"
| main_init:
    "block_files_of (new_object sdir csize name fs) = [] \<Longrightarrow>
     main_load_chain env (new_object sdir csize name fs) now = (c, r) \<Longrightarrow> reachable env c"
| main_register_user:
    "reachable env c \<Longrightarrow>
     main_register_user env c username password now = Some (c', r) \<Longrightarrow> reachable env c'"

text \<open>The invariant: block \<open>i\<close> has index \<open>i\<close> and is linked to block \<open>i - 1\<close>.\<close>

definition linked :: "pyenv \<Rightarrow> Block \<Rightarrow> Block \<Rightarrow> bool" where
  "linked env prev_block block =
     (prev_hash block = calculate_hash env prev_block \<and>
      index block = index prev_block + 1 \<and>
      verifying_proof (proof_no block) (proof_no prev_block))"

definition chain_inv :: "pyenv \<Rightarrow> Block list \<Rightarrow> bool" where
  "chain_inv env bs =
     (bs \<noteq> [] \<and>
      list_all (\<lambda>i. index (bs ! i) = int i) [0..<length bs] \<and>
      list_all (\<lambda>i. linked env (bs ! (i - 1)) (bs ! i)) [1..<length bs])"

section \<open>Reading the access records\<close>

text \<open>
  A record that \<open>has_access\<close> can read: its file name is a string, and it names a grantee
  and a granter. \<open>grants\<close> is the test of \<open>has_access\<close> on such a record.
\<close>

definition grant_like :: "pydict \<Rightarrow> bool" where
  "grant_like d =
     ((case map_of d ''file_name'' of Some (Str f) \<Rightarrow> True | _ \<Rightarrow> False) \<and>
      map_of d ''user_to_share'' \<noteq> None \<and> map_of d ''owner'' \<noteq> None)"

definition file_name_of :: "pydict \<Rightarrow> string" where
  "file_name_of d = (case map_of d ''file_name'' of Some (Str f) \<Rightarrow> f | _ \<Rightarrow> [])"

definition grants :: "string \<Rightarrow> string \<Rightarrow> pydict \<Rightarrow> bool" where
  "grants file_name user d =
     (basename (file_name_of d) = basename file_name \<and>
      (map_of d ''user_to_share'' = Some (Str user) \<or> map_of d ''owner'' = Some (Str user)))"

definition records :: "Blockchain \<Rightarrow> pydict list" where
  "records c = concat (map data (chain c))"

section \<open>Example objects\<close>

text \<open>
  An environment that agrees with Python on the values rendered below (an empty payload,
  the timestamp 1700000000.0), and a chain object as \<open>load_chain\<close> leaves it on a storage
  directory that holds one block. The proof number 69732 of that block admits the proof 0.
\<close>

definition example_env :: pyenv where
  "example_env =
     \<lparr>str_data = (\<lambda>d. ''[]''), str_float = (\<lambda>t. ''1700000000.0''),
      relpath = (\<lambda>p. p), str_hash = length\<rparr>"

definition stored_block :: Block where
  "stored_block =
     \<lparr>index = 0, proof_no = 69732, prev_hash = ''0'', data = [], timestamp = 1700000000\<rparr>"

definition loaded_chain :: "string \<Rightarrow> Blockchain" where
  "loaded_chain sdir =
     \<lparr>chain = [stored_block], current_data = [],
      chunk_index = [0 \<mapsto> ''default_block_0.pkl''],
      storage_dir = sdir, chunk_size = 1, blockchain_name = ''default'',
      file_index = Map.empty, users = Map.empty,
      disk = [(os_path_join sdir ''default_block_0.pkl'', stored_block)],
      access_file = None\<rparr>"

text \<open>
  A content chain object as \<open>load_chain\<close> and \<open>update_file_index\<close> leave it on a storage
  directory where the second block file was edited: its \<open>prev_hash\<close> is not a digest.
\<close>

definition edited_block :: Block where
  "edited_block =
     \<lparr>index = 1, proof_no = 0, prev_hash = ''edited'',
      data = [[(''file_name'', Str ''f.txt''), (''file_date'', Str ''2024-01-01 00:00:00''),
               (''file_content'', Str ''6869''), (''owner'', Str ''alice'')]],
      timestamp = 1700000001\<rparr>"

definition edited_chain :: Blockchain where
  "edited_chain =
     \<lparr>chain = [stored_block, edited_block], current_data = [],
      chunk_index = [0 \<mapsto> ''default_block_0.pkl'', 1 \<mapsto> ''default_block_1.pkl''],
      storage_dir = ''file_blockchain'', chunk_size = 1, blockchain_name = ''default'',
      file_index = [Str ''f.txt'' \<mapsto> 1], users = Map.empty,
      disk = [(''file_blockchain/default_block_0.pkl'', stored_block),
              (''file_blockchain/default_block_1.pkl'', edited_block)],
      access_file = None\<rparr>"

text \<open>The path of the file that the next call of \<open>save_block\<close> writes.\<close>

definition next_block_file :: "Blockchain \<Rightarrow> string" where
  "next_block_file c =
     os_path_join (storage_dir c)
       (block_file_name (blockchain_name c) (int (length (chain c))))"

text \<open>
  A storage directory that holds a single block file, of index 5, and the object
  \<open>load_chain\<close> of main.py makes of it: a chain of length 1 whose tail has index 5.
\<close>

definition gap_block :: Block where
  "gap_block =
     \<lparr>index = 5, proof_no = 69732, prev_hash = ''0'', data = [], timestamp = 1700000000\<rparr>"

definition gap_chain :: Blockchain where
  "gap_chain =
     \<lparr>chain = [gap_block], current_data = [],
      chunk_index = [5 \<mapsto> ''default_block_5.pkl''],
      storage_dir = ''file_blockchain'', chunk_size = 1, blockchain_name = ''default'',
      file_index = Map.empty, users = Map.empty,
      disk = [(''file_blockchain/default_block_5.pkl'', gap_block)],
      access_file = None\<rparr>"

section \<open>Facts about the digest\<close>

lemmas sha_eval = add32_def rotr_def shr_def ssig0_def ssig1_def bsig0_def bsig1_def ch_def
  maj_def next_window_def sha_H0_def sha_K_def compress_def hex_word_def hex_digit_def
  sha256_hexdigest_def pad_bytes_def len_bytes_def zeros64_def

lemma str_int_88914: "str_int 88914 = ''88914''"
  by (simp add: str_int_def str_nat.simps hex_digit_def)

lemma str_int_0: "str_int 0 = ''0''"
  by (simp add: str_int_def str_nat.simps hex_digit_def)

lemma sha256_889140:
  "sha256_hexdigest ''889140'' =
     ''0000f20c50106e6b34c54a94a02d41018ce38d68f3a7274bd80b56f6001b5181''"
  by (simp add: sha_eval)

lemma sha256_088914:
  "sha256_hexdigest ''088914'' =
     ''c155d6ebe0c181c44d63a9f206fabe8e4f6e7e4160acde1af8455284eae35193''"
  by (simp add: sha_eval)

lemma verifying_proof_88914_0: "verifying_proof 88914 0"
  by (simp add: verifying_proof_def str_int_88914 str_int_0 sha256_889140)

lemma str_int_69732: "str_int 69732 = ''69732''"
  by (simp add: str_int_def str_nat.simps hex_digit_def)

lemma sha256_069732:
  "sha256_hexdigest ''069732'' =
     ''0000e326186933fa83f0efd581d09409022ec07b73a10f549bbaa6472e8a1175''"
  by (simp add: sha_eval)

lemma verifying_proof_0_69732: "verifying_proof 0 69732"
  by (simp add: verifying_proof_def str_int_69732 str_int_0 sha256_069732)

lemma length_mix: "length s = 8 \<Longrightarrow> length (mix t1 t2 s) = 8"
  by (induction t1 t2 s rule: mix.induct) auto

lemma length_round_step: "length s = 8 \<Longrightarrow> length (round_step k w s) = 8"
  by (induction k w s rule: round_step.induct) (auto simp: length_mix)

lemma length_rounds: "length s = 8 \<Longrightarrow> length (rounds ks w s) = 8"
  by (induction ks arbitrary: w s) (auto simp: length_round_step)

lemma length_compress: "length s = 8 \<Longrightarrow> length (compress s blk) = 8"
  by (simp add: compress_def length_rounds)

lemma length_foldl_compress: "length s = 8 \<Longrightarrow> length (foldl compress s bs) = 8"
  by (induction bs arbitrary: s) (auto simp: length_compress)

lemma length_hex_words: "length (concat (map hex_word ws)) = 8 * length ws"
  by (induction ws) (auto simp: hex_word_def)

lemma length_sha256_hexdigest: "length (sha256_hexdigest m) = 64"
  by (simp add: sha256_hexdigest_def length_hex_words length_foldl_compress sha_H0_def)

section \<open>The proof search returns the least admissible proof\<close>

lemma pow_loop_least:
  "start \<le> n \<Longrightarrow> verifying_proof n last_proof \<Longrightarrow>
   \<exists>p. pow_loop start last_proof = Some p \<and> start \<le> p \<and> p \<le> n \<and>
       verifying_proof p last_proof \<and>
       (\<forall>q. start \<le> q \<and> q < p \<longrightarrow> \<not> verifying_proof q last_proof)"
proof (induction "nat (n - start)" arbitrary: start)
  case 0
  then have "start = n" by simp
  with "0.prems" show ?case
    by (subst pow_loop.simps) auto
next
  case (Suc k)
  show ?case
  proof (cases "verifying_proof start last_proof")
    case True
    with Suc.prems show ?thesis
      by (subst pow_loop.simps) auto
  next
    case False
    from Suc.hyps(2) Suc.prems(1) have k: "k = nat (n - (start + 1))" and le: "start + 1 \<le> n"
      by linarith+
    from Suc.hyps(1) [OF k le Suc.prems(2)] obtain p where
      p: "pow_loop (start + 1) last_proof = Some p" "start + 1 \<le> p" "p \<le> n"
         "verifying_proof p last_proof"
         "\<forall>q. start + 1 \<le> q \<and> q < p \<longrightarrow> \<not> verifying_proof q last_proof"
      by blast
    have "pow_loop start last_proof = Some p"
      using False p(1) by (subst pow_loop.simps) simp
    moreover have "\<forall>q. start \<le> q \<and> q < p \<longrightarrow> \<not> verifying_proof q last_proof"
    proof (intro allI impI)
      fix q assume q: "start \<le> q \<and> q < p"
      show "\<not> verifying_proof q last_proof"
      proof (cases "q = start")
        case True
        with False show ?thesis by simp
      next
        case False
        with q have "start + 1 \<le> q \<and> q < p" by linarith
        with p(5) show ?thesis by blast
      qed
    qed
    ultimately show ?thesis
      using p(2,3,4) by auto
  qed
qed

section \<open>The chain invariant\<close>

lemma pow_loop_sound:
  assumes "pow_loop s l = Some p"
  shows "verifying_proof p l"
proof (rule pow_loop.raw_induct [where P = "\<lambda>s l p. verifying_proof p l", OF _ assms])
  fix f :: "int \<Rightarrow> int \<Rightarrow> int option" and s l p
  assume "\<And>s l p. f s l = Some p \<Longrightarrow> verifying_proof p l"
    and "(if verifying_proof s l then Some s else f (s + 1) l) = Some p"
  then show "verifying_proof p l"
    by (auto split: if_splits)
qed

lemma proof_of_work_sound: "proof_of_work l = Some p \<Longrightarrow> verifying_proof p l"
  unfolding proof_of_work_def by (rule pow_loop_sound)

lemma chain_inv_iff:
  "chain_inv env bs \<longleftrightarrow>
     bs \<noteq> [] \<and> (\<forall>i<length bs. index (bs ! i) = int i) \<and>
     (\<forall>i. 1 \<le> i \<and> i < length bs \<longrightarrow> linked env (bs ! (i - 1)) (bs ! i))"
  by (auto simp: chain_inv_def list_all_iff)

lemma chain_inv_snoc:
  assumes "chain_inv env bs" and "index b = int (length bs)" and "linked env (last bs) b"
  shows "chain_inv env (bs @ [b])"
proof -
  from assms(1) have ne: "bs \<noteq> []"
    and ix: "\<forall>i<length bs. index (bs ! i) = int i"
    and lk: "\<forall>i. 1 \<le> i \<and> i < length bs \<longrightarrow> linked env (bs ! (i - 1)) (bs ! i)"
    by (simp_all add: chain_inv_iff)
  have "index ((bs @ [b]) ! i) = int i" if "i < length (bs @ [b])" for i
    using that ix assms(2) by (cases "i < length bs") (auto simp: nth_append)
  moreover have "linked env ((bs @ [b]) ! (i - 1)) ((bs @ [b]) ! i)"
    if "1 \<le> i \<and> i < length (bs @ [b])" for i
  proof (cases "i < length bs")
    case True
    with that lk show ?thesis by (auto simp: nth_append)
  next
    case False
    with that have i: "i = length bs" by simp
    with ne have "(bs @ [b]) ! (i - 1) = last bs"
      by (simp add: nth_append last_conv_nth)
    with i assms(3) show ?thesis by simp
  qed
  ultimately show ?thesis
    unfolding chain_inv_iff using ne by blast
qed

lemma chain_inv_last_index: "chain_inv env bs \<Longrightarrow> index (last bs) = int (length bs) - 1"
  by (cases bs rule: rev_cases) (auto simp: chain_inv_iff nth_append)

lemma chain_construct_block:
  "chain (fst (construct_block c p h now)) =
     chain c @ [\<lparr>index = int (length (chain c)), proof_no = p, prev_hash = h,
                 data = current_data c, timestamp = now\<rparr>]"
  by (simp add: construct_block_def save_block_def Let_def)

lemma seal_chain_inv:
  assumes "chain_inv env (chain c)" and "seal env c now = Some (c', r)"
  shows "chain_inv env (chain c')"
proof -
  from assms(1) have ne: "chain c \<noteq> []" by (simp add: chain_inv_iff)
  then have lb: "latest_block c = Inr (last (chain c))" by (simp add: latest_block_def)
  from assms(2) lb obtain p where
    p: "proof_of_work (proof_no (last (chain c))) = Some p"
    and c': "c' = fst (construct_block c p (calculate_hash env (last (chain c))) now)"
    by (auto simp: seal_def split: option.splits prod.splits)
  show ?thesis
    unfolding c' chain_construct_block
    by (rule chain_inv_snoc [OF assms(1)])
       (simp_all add: linked_def proof_of_work_sound [OF p] chain_inv_last_index [OF assms(1)])
qed

lemma chain_inv_genesis:
  "chain_inv env [\<lparr>index = 0, proof_no = p, prev_hash = h, data = d, timestamp = t\<rparr>]"
  by (simp add: chain_inv_def)

lemma load_files_nil: "load_files c [] = Inr c" by simp

lemma Blockchain_init_genesis:
  assumes "block_files_of (new_object sdir csize name fs) = []"
    and "Blockchain_init sdir csize name fs now = Inr c"
  shows "chain_inv env (chain c)" and "current_data c = []"
  using assms
  by (auto simp: Blockchain_init_def load_chain_def block_files_of_def new_object_def
      construct_genesis_def chain_construct_block chain_inv_genesis
      construct_block_def save_block_def Let_def)

lemma fresh_chain:
  "Blockchain_init ''blockchain_data'' csize ''default'' [] now =
     Inr \<lparr>chain = [\<lparr>index = 0, proof_no = 0, prev_hash = ''0'', data = [], timestamp = now\<rparr>],
          current_data = [],
          chunk_index = [0 \<mapsto> ''blockchain_data/default_block_0.pkl''],
          storage_dir = ''blockchain_data'', chunk_size = csize, blockchain_name = ''default'',
          file_index = Map.empty, users = Map.empty,
          disk = [(''blockchain_data/default_block_0.pkl'',
                   \<lparr>index = 0, proof_no = 0, prev_hash = ''0'', data = [], timestamp = now\<rparr>)],
          access_file = None\<rparr>"
  by (simp add: Blockchain_init_def new_object_def load_chain_def block_files_of_def
      listdir_def construct_genesis_def construct_block_def save_block_def
      block_file_name_def os_path_join_def str_int_0 Let_def)

lemma chain_update_file_index [simp]: "chain (update_file_index c) = chain c"
  by (simp add: update_file_index_def)

lemma chain_save_access_chain [simp]: "chain (save_access_chain c) = chain c"
  by (simp add: save_access_chain_def)

lemma chain_register_user [simp]: "chain (fst (register_user c u p)) = chain c"
  by (simp add: register_user_def)

lemma grant_access_chain_inv:
  assumes "chain_inv env (chain c)"
    and "grant_access env c f ow u stamp now = Some (c', r)"
  shows "chain_inv env (chain c')"
proof -
  let ?c = "c\<lparr>current_data := current_data c @ [grant_record f ow u stamp]\<rparr>"
  from assms(2) obtain r' where "seal env ?c now = Some (c', r')"
    by (auto simp: grant_access_def split: option.splits prod.splits sum.splits)
  moreover have "chain_inv env (chain ?c)" using assms(1) by simp
  ultimately show ?thesis by (rule seal_chain_inv [rotated])
qed

lemma update_index_chain_inv:
  assumes "chain_inv env (chain c)"
    and "update_index env c l stamp now = Some (c', r)"
  shows "chain_inv env (chain c')"
proof -
  let ?c = "c\<lparr>current_data := current_data c @
               [[(''file_list'', Dicts l), (''timestamp'', Str stamp)]]\<rparr>"
  from assms(2) obtain r' where "seal env ?c now = Some (c', r')"
    by (auto simp: update_index_def split: option.splits prod.splits sum.splits)
  moreover have "chain_inv env (chain ?c)" using assms(1) by simp
  ultimately show ?thesis by (rule seal_chain_inv [rotated])
qed

lemma add_file_seal:
  assumes "add_file env (fc, ac, ic) file_path file_date file_content owner
             now stamp_a now_a stamp_i now_i = Some ((fc', ac', ic'), r)"
  shows "\<exists>c1 r1. seal env (fc\<lparr>current_data := current_data fc @
                      [file_record (relpath env file_path) file_date file_content owner]\<rparr>)
                    now = Some (c1, r1) \<and>
                 (fc' = c1 \<or> fc' = update_file_index c1)"
  using assms
  by (auto simp: add_file_def Let_def split: option.splits prod.splits sum.splits)

lemma add_file_chain_inv:
  assumes "chain_inv env (chain fc)"
    and "add_file env (fc, ac, ic) file_path file_date file_content owner
             now stamp_a now_a stamp_i now_i = Some ((fc', ac', ic'), r)"
  shows "chain_inv env (chain fc')"
proof -
  let ?c = "fc\<lparr>current_data := current_data fc @
              [file_record (relpath env file_path) file_date file_content owner]\<rparr>"
  from add_file_seal [OF assms(2)] obtain c1 r1 where
    s: "seal env ?c now = Some (c1, r1)" and eq: "chain fc' = chain c1"
    by auto
  have "chain_inv env (chain ?c)" using assms(1) by simp
  from seal_chain_inv [OF this s] eq show ?thesis by simp
qed

lemma main_load_chain_genesis:
  assumes "block_files_of (new_object sdir csize name fs) = []"
    and "main_load_chain env (new_object sdir csize name fs) now = (c, r)"
  shows "chain_inv env (chain c)"
  using assms
  by (auto simp: main_load_chain_def main_construct_genesis_def main_construct_block_def
      new_object_def save_block_def Let_def chain_inv_genesis main_verify_chain_integrity_def
      block_files_of_def split: if_splits)

lemma main_construct_block_chain_inv:
  assumes "chain_inv env (chain c)"
    and "main_construct_block env c p (calculate_hash env (last (chain c))) now = (c', r)"
    and "verifying_proof p (proof_no (last (chain c)))"
  shows "chain_inv env (chain c')"
proof (cases "chain c' = chain c")
  case True
  with assms(1) show ?thesis by simp
next
  case False
  let ?block = "\<lparr>index = int (length (chain c)), proof_no = p,
                 prev_hash = calculate_hash env (last (chain c)),
                 data = current_data c, timestamp = now\<rparr>"
  from assms(2) False have ch: "chain c' = chain c @ [?block]"
    by (auto simp: main_construct_block_def save_block_def Let_def split: if_splits)
  show ?thesis
    unfolding ch
    by (rule chain_inv_snoc [OF assms(1)])
       (simp_all add: linked_def assms(3) chain_inv_last_index [OF assms(1)])
qed

lemma main_register_user_chain_inv:
  assumes "chain_inv env (chain c)"
    and "main_register_user env c username password now = Some (c', r)"
  shows "chain_inv env (chain c')"
proof (cases "users c username = None")
  case False
  with assms show ?thesis by (simp add: main_register_user_def)
next
  case True
  let ?c = "c\<lparr>current_data := current_data c @
               [user_record username (sha256_hexdigest password)]\<rparr>"
  from assms(1) have ne: "chain c \<noteq> []" by (simp add: chain_inv_iff)
  from assms(2) True ne obtain p c1 r1 where
    p: "proof_of_work (proof_no (last (chain c))) = Some p"
    and m: "main_construct_block env ?c p (calculate_hash env (last (chain c))) now = (c1, r1)"
    and c': "chain c' = chain c1"
    by (auto simp: main_register_user_def main_add_user_def main_seal_def latest_block_def
        Let_def split: option.splits prod.splits sum.splits)
  have "chain_inv env (chain ?c)" using assms(1) by simp
  from main_construct_block_chain_inv [OF this] m proof_of_work_sound [OF p]
  have "chain_inv env (chain c1)" by simp
  with c' show ?thesis by simp
qed

lemma reachable_chain_inv: "reachable env c \<Longrightarrow> chain_inv env (chain c)"
proof (induction rule: reachable.induct)
  case (init sdir csize name fs now c)
  then show ?case by (rule Blockchain_init_genesis(1))
next
  case (file_init sdir csize name fs now c)
  then show ?case
    by (auto simp: FileBlockchain_init_def split: sum.splits
        dest: Blockchain_init_genesis(1) [where env = env])
next
  case (access_init sdir csize name fs now now' c)
  then show ?case
    by (auto simp: AccessBlockchain_init_def load_access_chain_def chain_inv_iff
        split: sum.splits dest: Blockchain_init_genesis(1) [where env = env])
next
  case (add_file fc ac ic file_path file_date file_content owner now stamp_a now_a stamp_i now_i fc' ac' ic' r)
  then show ?case by (blast intro: add_file_chain_inv)
next
  case (grant_access c file_name owner user_to_share stamp now c' r)
  then show ?case by (blast intro: grant_access_chain_inv)
next
  case (save_access_chain c)
  then show ?case by simp
next
  case (update_index c file_list stamp now c' r)
  then show ?case by (blast intro: update_index_chain_inv)
next
  case (register_user c username password)
  then show ?case by simp
next
  case (main_init sdir csize name fs now c r)
  then show ?case by (rule main_load_chain_genesis)
next
  case (main_register_user c username password now c' r)
  then show ?case by (blast intro: main_register_user_chain_inv)
qed

lemma stored_block_fields [simp]:
  "index stored_block = 0" "proof_no stored_block = 69732" "data stored_block = []"
  by (simp_all add: stored_block_def)

lemma main_seal_stored_block:
  "main_construct_block example_env (loaded_chain ''blockchain_data'') 0
     (calculate_hash example_env stored_block) 1700000001 =
   (save_block
      ((loaded_chain ''blockchain_data'')
         \<lparr>current_data := [],
          chain := [stored_block,
                    \<lparr>index = 1, proof_no = 0,
                      prev_hash = calculate_hash example_env stored_block,
                      data = [], timestamp = 1700000001\<rparr>]\<rparr>)
      \<lparr>index = 1, proof_no = 0, prev_hash = calculate_hash example_env stored_block,
        data = [], timestamp = 1700000001\<rparr>,
    Inr \<lparr>index = 1, proof_no = 0, prev_hash = calculate_hash example_env stored_block,
          data = [], timestamp = 1700000001\<rparr>)"
  by (simp add: main_construct_block_def loaded_chain_def Let_def save_block_def
      main_verify_chain_integrity_def check_validity_def verifying_proof_0_69732)

lemma grant_likeD:
  assumes "grant_like d"
  obtains f u ow where "map_of d ''file_name'' = Some (Str f)"
    and "map_of d ''user_to_share'' = Some u" and "map_of d ''owner'' = Some ow"
  using assms by (auto simp: grant_like_def split: option.splits pyval.splits)

lemma has_access_scan_grants:
  "list_all grant_like ds \<Longrightarrow>
   has_access_scan ds file_name user = Inr (\<exists>d\<in>set ds. grants file_name user d)"
proof (induction ds)
  case Nil
  then show ?case by simp
next
  case (Cons d ds)
  then have gl: "grant_like d" and rest: "list_all grant_like ds" by simp_all
  from gl obtain f u ow where
    d: "map_of d ''file_name'' = Some (Str f)" "map_of d ''user_to_share'' = Some u"
       "map_of d ''owner'' = Some ow"
    by (rule grant_likeD)
  have g: "grants file_name user d \<longleftrightarrow>
           basename f = basename file_name \<and> (u = Str user \<or> ow = Str user)"
    by (simp add: grants_def file_name_of_def d)
  show ?case
    using Cons.IH [OF rest] by (simp add: d g)
qed

lemma proof_of_work_69732: "proof_of_work 69732 = Some 0"
  unfolding proof_of_work_def
  by (subst pow_loop.simps) (simp add: verifying_proof_0_69732)

lemma seal_returns:
  assumes "seal env c now = Some (c', Inr block)"
  shows "chain c' = chain c @ [block] \<and> data block = current_data c \<and>
         index block = int (length (chain c)) \<and> current_data c' = []"
  using assms
  by (auto simp: seal_def construct_block_def save_block_def Let_def latest_block_def
      split: option.splits if_splits)

lemma grant_access_records:
  assumes "grant_access env c f ow u stamp now = Some (c', Inr ())"
  shows "records c' = records c @ current_data c @ [grant_record f ow u stamp]"
proof -
  let ?c = "c\<lparr>current_data := current_data c @ [grant_record f ow u stamp]\<rparr>"
  from assms obtain block where "seal env ?c now = Some (c', Inr block)"
    by (auto simp: grant_access_def split: option.splits prod.splits sum.splits)
  from seal_returns [OF this] show ?thesis
    by (simp add: records_def)
qed

lemma basename_f_txt: "basename ''f.txt'' = ''f.txt''"
  by (simp add: basename_def)

lemma grant_access_loaded_chain:
  "\<exists>c'. grant_access example_env (loaded_chain ''access_blockchain'')
           ''f.txt'' ''alice'' ''bob'' ''2024-01-01 00:00:00'' 1700000001 = Some (c', Inr ())"
  by (simp add: grant_access_def seal_def latest_block_def loaded_chain_def
      proof_of_work_69732 construct_block_def Let_def)

lemma length_calculate_hash: "length (calculate_hash env b) = 64"
  by (simp add: calculate_hash_def length_sha256_hexdigest)

lemma calculate_hash_not_edited: "calculate_hash env b \<noteq> ''edited''"
proof
  assume "calculate_hash env b = ''edited''"
  then have "length (calculate_hash env b) = length ''edited''" by simp
  then show False by (simp add: length_calculate_hash)
qed

lemma edited_chain_fails:
  "file_index edited_chain (Str ''f.txt'') = Some 1"
  "verify_chain_integrity example_env edited_chain 1 = Inr False"
  "\<not> main_verify_chain_integrity example_env edited_chain"
  by (simp_all add: edited_chain_def verify_chain_integrity_def load_adjacent_blocks_def
      blocks_to_load_def load_block_def os_path_join_def Let_def example_env_def
      blocks_by_index_def edited_block_def check_validity_def calculate_hash_not_edited
      main_verify_chain_integrity_def)

lemma load_block_error: "load_block c f = Inl e \<Longrightarrow> e = FileNotFoundError"
  by (auto simp: load_block_def split: option.splits)

lemma load_blocks_raises:
  "f \<in> set fs \<Longrightarrow> load_block c f = Inl FileNotFoundError \<Longrightarrow>
   load_blocks c fs = Inl FileNotFoundError"
proof (induction fs)
  case Nil
  then show ?case by simp
next
  case (Cons a fs)
  show ?case
  proof (cases "load_block c a")
    case (Inl e)
    then show ?thesis using load_block_error [OF Inl] by simp
  next
    case (Inr b)
    with Cons.prems have "f \<in> set fs" by auto
    from Cons.IH [OF this Cons.prems(2)] Inr show ?thesis by simp
  qed
qed

lemma map_of_write_file:
  "map_of (write_file fs p v) q = (if q = p then Some v else map_of fs q)"
  by (induction fs) auto

lemma chunk_index_in_blocks_to_load:
  "chunk_index c i = Some f \<Longrightarrow> f \<in> set (blocks_to_load c i)"
  by (auto simp: blocks_to_load_def Let_def split: option.splits)

lemma load_adjacent_blocks_raises:
  assumes "chunk_index c i = Some f" and "load_block c f = Inl FileNotFoundError"
  shows "load_adjacent_blocks env c i = Inl FileNotFoundError"
  unfolding load_adjacent_blocks_def
  by (rule load_blocks_raises [OF _ assms(2)])
     (simp add: chunk_index_in_blocks_to_load [OF assms(1)])

lemma seal_returns_storage:
  assumes "seal env c now = Some (c', Inr block)"
  shows "chunk_index c' (int (length (chain c))) = Some (next_block_file c) \<and>
         disk c' = write_file (disk c) (next_block_file c) block \<and>
         storage_dir c' = storage_dir c"
  using assms
  by (auto simp: seal_def construct_block_def save_block_def Let_def latest_block_def
      next_block_file_def split: option.splits if_splits)

lemma index_records_last:
  assumes "data b = ds @ [d]" and "map_of d ''file_name'' = Some v"
  shows "index_records m b v = Some (index b)"
  by (simp add: index_records_def assms)

lemma file_index_last_record:
  assumes "chain c = bs @ [b]" and "data b = ds @ [d]" and "map_of d ''file_name'' = Some v"
  shows "file_index (update_file_index c) v = Some (index b)"
  by (simp add: update_file_index_def assms(1) index_records_last [OF assms(2,3)])

lemma update_file_index_storage [simp]:
  "chunk_index (update_file_index c) = chunk_index c"
  "disk (update_file_index c) = disk c"
  "storage_dir (update_file_index c) = storage_dir c"
  by (simp_all add: update_file_index_def)

lemma add_file_returns:
  assumes "add_file env (fc, ac, ic) file_path file_date file_content owner
             now stamp_a now_a stamp_i now_i = Some ((fc', ac', ic'), Inr ())"
  shows "\<exists>c1 block.
           seal env (fc\<lparr>current_data := current_data fc @
                      [file_record (relpath env file_path) file_date file_content owner]\<rparr>)
                now = Some (c1, Inr block) \<and>
           fc' = update_file_index c1"
  using assms
  by (auto simp: add_file_def Let_def split: option.splits prod.splits sum.splits)

lemma str_int_1: "str_int 1 = ''1''"
  by (simp add: str_int_def str_nat.simps hex_digit_def)

lemma add_file_loaded_chain:
  "\<exists>fc' ac' ic'.
     add_file example_env
       (loaded_chain ''file_blockchain'', loaded_chain ''access_blockchain'',
        loaded_chain ''index_blockchain'')
       ''f.txt'' ''2024-01-01 00:00:00'' ''hi'' ''alice''
       1700000001 ''2024-01-01 00:00:01'' 1700000002 ''2024-01-01 00:00:02'' 1700000003 =
     Some ((fc', ac', ic'), Inr ())"
  by (simp add: add_file_def grant_access_def update_index_def seal_def latest_block_def
      loaded_chain_def proof_of_work_69732 construct_block_def Let_def example_env_def
      get_file_list_def update_file_index_def index_records_def file_record_def
      save_block_def save_access_chain_def)

lemma block_files_eleven:
  "sort (block_files_of (new_object ''blockchain_data'' csize ''default''
     (map (\<lambda>i. (os_path_join ''blockchain_data'' (block_file_name ''default'' i),
                  (b i)\<lparr>index := i\<rparr>)) [0..10]))) =
   [''default_block_0.pkl'', ''default_block_1.pkl'', ''default_block_10.pkl'',
    ''default_block_2.pkl'', ''default_block_3.pkl'', ''default_block_4.pkl'',
    ''default_block_5.pkl'', ''default_block_6.pkl'', ''default_block_7.pkl'',
    ''default_block_8.pkl'', ''default_block_9.pkl'']"
  by (simp add: block_files_of_def new_object_def listdir_def os_path_join_def
      block_file_name_def str_int_def str_nat.simps hex_digit_def startswith_def
      upto.simps)

lemma main_verify_snoc:
  assumes "main_verify_chain_integrity env c" and "chain c \<noteq> []"
    and "chain c' = chain c @ [block]" and "check_validity env block (last (chain c))"
  shows "main_verify_chain_integrity env c'"
proof -
  have "check_validity env (chain c' ! i) (chain c' ! (i - 1))"
    if "1 \<le> i" "i < length (chain c')" for i
  proof (cases "i < length (chain c)")
    case True
    with that assms(1) have "check_validity env (chain c ! i) (chain c ! (i - 1))"
      by (simp add: main_verify_chain_integrity_def list_all_iff)
    with True that show ?thesis by (auto simp: assms(3) nth_append)
  next
    case False
    with that have i: "i = length (chain c)" by (simp add: assms(3))
    with assms(2) have "chain c' ! (i - 1) = last (chain c)"
      by (simp add: assms(3) nth_append last_conv_nth)
    with i assms(4) show ?thesis by (simp add: assms(3))
  qed
  then show ?thesis
    by (simp add: main_verify_chain_integrity_def list_all_iff)
qed

lemma main_register_user_present:
  "users c username \<noteq> None \<Longrightarrow>
   main_register_user env c username password now = Some (c, Inr False)"
  by (simp add: main_register_user_def)

lemma main_register_user_seals:
  assumes "users c username = None" and "chain c \<noteq> []"
    and "index (last (chain c)) + 1 = int (length (chain c))"
    and "main_verify_chain_integrity env c"
    and "0 \<le> n" and "verifying_proof n (proof_no (last (chain c)))"
  shows "\<exists>c' p. main_register_user env c username password now = Some (c', Inr True) \<and>
           chain c' = chain c @
             [\<lparr>index = int (length (chain c)), proof_no = p,
               prev_hash = calculate_hash env (last (chain c)),
               data = current_data c @ [user_record username (sha256_hexdigest password)],
               timestamp = now\<rparr>] \<and>
           users c' = (users c)(username \<mapsto> sha256_hexdigest password) \<and>
           current_data c' = []"
proof -
  let ?rec = "user_record username (sha256_hexdigest password)"
  let ?c = "c\<lparr>current_data := current_data c @ [?rec]\<rparr>"
  from pow_loop_least [OF assms(5,6)] obtain p where
    p: "proof_of_work (proof_no (last (chain c))) = Some p"
    and vp: "verifying_proof p (proof_no (last (chain c)))"
    unfolding proof_of_work_def by blast
  let ?block = "\<lparr>index = int (length (chain c)), proof_no = p,
               prev_hash = calculate_hash env (last (chain c)),
               data = current_data c @ [?rec], timestamp = now\<rparr>"
  let ?c' = "save_block (?c\<lparr>current_data := [], chain := chain c @ [?block]\<rparr>) ?block"
  have cv: "check_validity env ?block (last (chain c))"
    using assms(3) vp by (simp add: check_validity_def)
  have ch: "chain ?c' = chain c @ [?block]"
    by (simp add: save_block_def Let_def)
  have v: "main_verify_chain_integrity env ?c'"
    by (rule main_verify_snoc [OF assms(4) assms(2) ch cv])
  have "main_construct_block env ?c p (calculate_hash env (last (chain c))) now =
          (?c', Inr ?block)"
    using assms(2,3) v by (simp add: main_construct_block_def Let_def)
  then have "main_register_user env c username password now =
          Some (?c'\<lparr>users := (users ?c')(username \<mapsto> sha256_hexdigest password)\<rparr>, Inr True)"
    using assms(1,2) p
    by (simp add: main_register_user_def main_add_user_def main_seal_def latest_block_def
        Let_def)
  then show ?thesis
    by (intro exI [of _ "?c'\<lparr>users := (users ?c')(username \<mapsto> sha256_hexdigest password)\<rparr>"]
        exI [of _ p]) (simp add: save_block_def Let_def)
qed

lemma main_block_files_eleven:
  "\<exists>keyed. sort_keys (block_files_of (new_object ''blockchain_data'' csize ''default''
       (map (\<lambda>i. (os_path_join ''blockchain_data'' (block_file_name ''default'' i),
                    (b i)\<lparr>index := i\<rparr>)) [0..10]))) = Inr keyed \<and>
     map snd (sort_key fst keyed) =
       [''default_block_0.pkl'', ''default_block_1.pkl'', ''default_block_2.pkl'',
        ''default_block_3.pkl'', ''default_block_4.pkl'', ''default_block_5.pkl'',
        ''default_block_6.pkl'', ''default_block_7.pkl'', ''default_block_8.pkl'',
        ''default_block_9.pkl'', ''default_block_10.pkl'']"
  by (simp add: block_files_of_def new_object_def listdir_def os_path_join_def
      block_file_name_def str_int_def str_nat.simps hex_digit_def startswith_def
      upto.simps extract_block_index_def split_str_def py_int_def is_space_def
      is_digit_def digits_value_def)

lemma grant_access_keeps_grant_like:
  assumes "\<forall>d\<in>set (records c) \<union> set (current_data c). grant_like d"
    and "grant_access env c f ow u stamp now = Some (c', r)"
  shows "\<forall>d\<in>set (records c') \<union> set (current_data c'). grant_like d"
proof -
  let ?rec = "grant_record f ow u stamp"
  let ?c = "c\<lparr>current_data := current_data c @ [?rec]\<rparr>"
  have g: "grant_like ?rec"
    by (simp add: grant_like_def grant_record_def)
  from assms(2) obtain r' where s: "seal env ?c now = Some (c', r')"
    by (auto simp: grant_access_def split: option.splits prod.splits sum.splits)
  show ?thesis
  proof (cases r')
    case (Inl e)
    with s have "c' = ?c"
      by (auto simp: seal_def Let_def split: sum.splits option.splits prod.splits)
    with assms(1) g show ?thesis by (auto simp: records_def)
  next
    case (Inr block)
    from seal_returns [OF s [unfolded Inr]] assms(1) g show ?thesis
      by (auto simp: records_def)
  qed
qed

text \<open>
  After a reload the index entries are bare file names again: the same \<open>add_file\<close>,
  followed by \<open>load_chain\<close> (as the backup command does), serves the file as C6 describes.
\<close>

lemma char_of_104: "char_of (104::nat) = CHR ''h''"
  by code_simp

lemma char_of_105: "char_of (105::nat) = CHR ''i''"
  by code_simp

lemma bytes_fromhex_6869: "bytes_fromhex ''6869'' = Inr ''hi''"
  by (simp add: hex_value_def is_space_def char_of_104 char_of_105)

lemma get_file_after_reload:
  "\<exists>fc' ac' ic' c.
     add_file example_env
       (loaded_chain ''file_blockchain'', loaded_chain ''access_blockchain'',
        loaded_chain ''index_blockchain'')
       ''f.txt'' ''2024-01-01 00:00:00'' ''hi'' ''alice''
       1700000001 ''2024-01-01 00:00:01'' 1700000002 ''2024-01-01 00:00:02'' 1700000003 =
     Some ((fc', ac', ic'), Inr ()) \<and>
     load_chain fc' 1700000004 = Inr c \<and>
     get_file_content example_env c ''f.txt'' ''alice'' False = Inr (Some ''hi'') \<and>
     get_file_content example_env c ''f.txt'' ''bob'' False = Inr None \<and>
     get_file_content example_env c ''f.txt'' ''bob'' True = Inr (Some ''hi'')"
  by (simp add: add_file_def grant_access_def update_index_def seal_def latest_block_def
      loaded_chain_def proof_of_work_69732 construct_block_def Let_def example_env_def
      get_file_list_def update_file_index_def index_records_def file_record_def
      save_block_def save_access_chain_def load_chain_def block_files_of_def listdir_def
      os_path_join_def block_file_name_def str_int_1 startswith_def load_block_def
      get_file_content_def verify_chain_integrity_def load_adjacent_blocks_def
      blocks_to_load_def blocks_by_index_def check_validity_def verifying_proof_0_69732
      bytes_hex_def hex_digit_def hex_value_def is_space_def char_of_104 char_of_105)

text \<open>
  On a chain loaded from storage, a target index without an entry makes
  \<open>verify_chain_integrity\<close> return False, as C10 describes.
\<close>

lemma verify_window_loaded_chain:
  "chunk_index (loaded_chain ''blockchain_data'') 1 = None \<and>
   chunk_index (loaded_chain ''blockchain_data'') (- 1) = None \<and>
   verify_chain_integrity env (loaded_chain ''blockchain_data'') 1 = Inr False \<and>
   verify_chain_integrity env (loaded_chain ''blockchain_data'') (- 1) = Inr False"
  by (simp add: loaded_chain_def verify_chain_integrity_def load_adjacent_blocks_def
      blocks_to_load_def load_block_def os_path_join_def Let_def blocks_by_index_def)

lemma gap_block_files:
  "block_files_of (new_object ''file_blockchain'' csize ''default''
        [(''file_blockchain/default_block_5.pkl'', gap_block)]) = [''default_block_5.pkl'']"
  by (simp add: block_files_of_def new_object_def listdir_def os_path_join_def startswith_def)

lemma extract_block_index_5: "extract_block_index ''default_block_5.pkl'' = Inr 5"
  by (simp add: extract_block_index_def split_str_def py_int_def
      is_space_def is_digit_def digits_value_def startswith_def)

lemma main_load_chain_gap_any:
  "main_load_chain example_env
     (new_object ''file_blockchain'' csize ''default''
        [(''file_blockchain/default_block_5.pkl'', gap_block)]) now =
   (gap_chain\<lparr>chunk_size := csize\<rparr>, Inr ())"
  unfolding main_load_chain_def gap_block_files
  by (simp add: extract_block_index_5 new_object_def load_block_def os_path_join_def
      gap_chain_def gap_block_def main_verify_chain_integrity_def)

lemma main_load_chain_gap:
  "main_load_chain example_env
     (new_object ''file_blockchain'' 1 ''default''
        [(''file_blockchain/default_block_5.pkl'', gap_block)]) 1700000001 =
   (gap_chain, Inr ())"
proof -
  have "gap_chain\<lparr>chunk_size := 1\<rparr> = gap_chain"
    by (simp add: gap_chain_def)
  then show ?thesis
    unfolding main_load_chain_gap_any by (rule arg_cong2 [where f = Pair, OF _ refl])
qed

lemma main_construct_block_gap:
  "main_construct_block example_env
     (gap_chain\<lparr>current_data := [user_record ''a'' ''p'']\<rparr>) 0 ''0'' 1700000002 =
   (gap_chain\<lparr>current_data := [user_record ''a'' ''p'']\<rparr>, Inl ValueError)"
  by (simp add: main_construct_block_def gap_chain_def gap_block_def Let_def)

lemma fresh_chain_grant:
  "\<exists>c c'. Blockchain_init ''blockchain_data'' 1 ''default'' [] 1700000000 = Inr c \<and>
          grant_access example_env c ''f.txt'' ''alice'' ''bob'' ''2024-01-01 00:00:00''
            1700000001 = Some (c', Inr ()) \<and>
          length (chain c') = 2"
proof -
  have "(0::int) \<le> 88914" by simp
  from pow_loop_least [OF this verifying_proof_88914_0] obtain p where
    p: "proof_of_work 0 = Some p"
    unfolding proof_of_work_def by blast
  show ?thesis
    by (simp add: fresh_chain grant_access_def seal_def latest_block_def p
        construct_block_def save_block_def Let_def)
qed

text \<open>
  C3. As written, the claim says that the admission test of a candidate proof against the
  previous proof hashes the previous proof rendered first and the candidate second. The
  code renders its first argument first, and both callers (\<open>proof_of_work\<close> and
  \<open>check_validity\<close>) pass the candidate as the first argument. At candidate 88914 and
  previous proof 0 the two orders differ: the test succeeds, while the digest of
  \<open>''0''\<close> followed by \<open>''88914''\<close> does not start with four zeros.
\<close>

theorem verifying_proof_prev_first_counterexample:
  "\<not> (verifying_proof 88914 0 \<longleftrightarrow>
        take 4 (sha256_hexdigest (str_int 0 @ str_int 88914)) = ''0000'')"
  by (simp add: verifying_proof_88914_0 str_int_88914 str_int_0 sha256_088914)

text \<open>
  C3, amended. For every candidate proof and previous proof, the admission test holds if
  and only if the SHA-256 hex digest of the candidate proof rendered first, followed by the
  previous proof, starts with four characters \<open>0\<close>; the digest always has 64 characters,
  so the four-character prefix exists.
\<close>

theorem verifying_proof_candidate_first:
  "verifying_proof candidate_proof prev_proof \<longleftrightarrow>
     take 4 (sha256_hexdigest (str_int candidate_proof @ str_int prev_proof)) =
       replicate 4 (CHR ''0'') \<and>
     length (sha256_hexdigest (str_int candidate_proof @ str_int prev_proof)) = 64"
  by (simp add: verifying_proof_def length_sha256_hexdigest numeral_eq_Suc)

text \<open>
  C4. Whenever some non-negative integer passes the admission test relative to
  \<open>last_proof\<close>, the search \<open>proof_of_work last_proof\<close> terminates, and the value it returns
  is the smallest non-negative integer passing the test.
\<close>

theorem proof_of_work_least:
  assumes "0 \<le> n" and "verifying_proof n last_proof"
  shows "\<exists>p. proof_of_work last_proof = Some p \<and> 0 \<le> p \<and> verifying_proof p last_proof \<and>
           (\<forall>q. 0 \<le> q \<and> q < p \<longrightarrow> \<not> verifying_proof q last_proof)"
  using pow_loop_least [OF assms] unfolding proof_of_work_def by blast

theorem proof_of_work_least_witness:
  "(0::int) \<le> 88914 \<and> verifying_proof 88914 0 \<and>
   (\<exists>p. proof_of_work 0 = Some p \<and> 0 \<le> p \<and> verifying_proof p 0 \<and>
        (\<forall>q. 0 \<le> q \<and> q < p \<longrightarrow> \<not> verifying_proof q 0))"
proof -
  have h: "(0::int) \<le> 88914" by simp
  show ?thesis
    using h verifying_proof_88914_0 proof_of_work_least [OF h verifying_proof_88914_0]
    by blast
qed

text \<open>
  C1. In every state reached from a new chain (its constructor makes the genesis block) by
  any sequence of the writers \<open>add_file\<close>, \<open>grant_access\<close>, \<open>update_index\<close> and
  \<open>register_user\<close> (\<open>add_user\<close> of main.py), the chain starts with a block of index 0, and
  every block after the first carries the digest of its predecessor as \<open>prev_hash\<close>, has
  the index of its predecessor plus one, and has a proof that passes the admission test
  against the proof of its predecessor.
\<close>

theorem reachable_chain_linked:
  assumes "reachable env c"
  shows "chain c \<noteq> [] \<and> index (chain c ! 0) = 0 \<and>
         (\<forall>i. 1 \<le> i \<and> i < length (chain c) \<longrightarrow>
           prev_hash (chain c ! i) = calculate_hash env (chain c ! (i - 1)) \<and>
           index (chain c ! i) = index (chain c ! (i - 1)) + 1 \<and>
           verifying_proof (proof_no (chain c ! i)) (proof_no (chain c ! (i - 1))))"
proof (intro conjI allI impI)
  from reachable_chain_inv [OF assms] show ne: "chain c \<noteq> []"
    by (simp add: chain_inv_iff)
  with reachable_chain_inv [OF assms] show "index (chain c ! 0) = 0"
    by (simp add: chain_inv_iff)
next
  fix i
  assume i: "1 \<le> i \<and> i < length (chain c)"
  from reachable_chain_inv [OF assms] i
  have l: "linked env (chain c ! (i - 1)) (chain c ! i)"
    by (simp add: chain_inv_iff)
  from l show "prev_hash (chain c ! i) = calculate_hash env (chain c ! (i - 1))"
    by (simp add: linked_def)
  from l show "index (chain c ! i) = index (chain c ! (i - 1)) + 1"
    by (simp add: linked_def)
  from l show "verifying_proof (proof_no (chain c ! i)) (proof_no (chain c ! (i - 1)))"
    by (simp add: linked_def)
qed

theorem reachable_chain_linked_witness:
  "\<exists>c c'. Blockchain_init ''blockchain_data'' 1 ''default'' [] 1700000000 = Inr c \<and>
          grant_access example_env c ''f.txt'' ''alice'' ''bob'' ''2024-01-01 00:00:00''
            1700000001 = Some (c', Inr ()) \<and>
          reachable example_env c' \<and> length (chain c') = 2 \<and>
          prev_hash (chain c' ! 1) = calculate_hash example_env (chain c' ! 0) \<and>
          index (chain c' ! 1) = index (chain c' ! 0) + 1 \<and>
          verifying_proof (proof_no (chain c' ! 1)) (proof_no (chain c' ! 0))"
proof -
  from fresh_chain_grant obtain c c' where
    c: "Blockchain_init ''blockchain_data'' 1 ''default'' [] 1700000000 = Inr c"
    and g: "grant_access example_env c ''f.txt'' ''alice'' ''bob'' ''2024-01-01 00:00:00''
              1700000001 = Some (c', Inr ())"
    and l: "length (chain c') = 2"
    by blast
  have nof: "block_files_of (new_object ''blockchain_data'' 1 ''default'' []) = []"
    by (simp add: block_files_of_def new_object_def listdir_def)
  have "reachable example_env c"
    by (rule reachable.init [OF nof c])
  then have r: "reachable example_env c'"
    by (rule reachable.grant_access [OF _ g])
  from reachable_chain_linked [OF r] l
  have "prev_hash (chain c' ! 1) = calculate_hash example_env (chain c' ! (1 - 1)) \<and>
        index (chain c' ! 1) = index (chain c' ! (1 - 1)) + 1 \<and>
        verifying_proof (proof_no (chain c' ! 1)) (proof_no (chain c' ! (1 - 1)))"
    by simp
  then have "prev_hash (chain c' ! 1) = calculate_hash example_env (chain c' ! 0) \<and>
        index (chain c' ! 1) = index (chain c' ! 0) + 1 \<and>
        verifying_proof (proof_no (chain c' ! 1)) (proof_no (chain c' ! 0))"
    by simp
  with c g r l show ?thesis by blast
qed

text \<open>
  C8. As written, the claim says that every call of \<open>construct_block\<close> makes the chain
  longer by one block and leaves the pending buffer empty. \<open>construct_block\<close> of main.py
  first compares the index of the tail plus one with the length of the chain, and raises
  ValueError before it appends when they differ. \<open>load_chain\<close> of main.py makes such an
  object from a storage directory that holds only the block file of index 5; a call of
  \<open>construct_block\<close> on it, with one record pending, leaves the chain at length 1 and the
  record in the pending buffer.
\<close>

theorem main_construct_block_index_mismatch_counterexample:
  "main_load_chain example_env
     (new_object ''file_blockchain'' 1 ''default''
        [(''file_blockchain/default_block_5.pkl'', gap_block)]) 1700000001 =
     (gap_chain, Inr ()) \<and>
   snd (main_construct_block example_env
          (gap_chain\<lparr>current_data := [user_record ''a'' ''p'']\<rparr>) 0 ''0'' 1700000002) =
     Inl ValueError \<and>
   length (chain (fst (main_construct_block example_env
          (gap_chain\<lparr>current_data := [user_record ''a'' ''p'']\<rparr>) 0 ''0'' 1700000002))) \<noteq>
     length (chain (gap_chain\<lparr>current_data := [user_record ''a'' ''p'']\<rparr>)) + 1 \<and>
   current_data (fst (main_construct_block example_env
          (gap_chain\<lparr>current_data := [user_record ''a'' ''p'']\<rparr>) 0 ''0'' 1700000002)) \<noteq> []"
  unfolding main_load_chain_gap main_construct_block_gap
  by (simp add: gap_chain_def)

text \<open>
  C8, amended. Every call of \<open>construct_block\<close> makes the chain longer by exactly one
  block, leaves every block that was in the chain as it was, and leaves the pending buffer
  empty, with one exception: \<open>construct_block\<close> of main.py, called on a non-empty chain
  whose tail index plus one differs from the length of the chain, raises ValueError and
  leaves the object as it was. \<open>construct_block\<close> of BlockChainBackup.py has no exception,
  and in main.py the block is appended also when the later integrity check raises.
\<close>

theorem construct_block_append_only:
  "(\<forall>c' block. construct_block c proof prev now = (c', block) \<longrightarrow>
      length (chain c') = length (chain c) + 1 \<and>
      (\<forall>i<length (chain c). chain c' ! i = chain c ! i) \<and> current_data c' = []) \<and>
   (\<forall>c' r. main_construct_block env c proof prev now = (c', r) \<longrightarrow>
      (if chain c \<noteq> [] \<and> index (last (chain c)) + 1 \<noteq> int (length (chain c))
       then c' = c \<and> r = Inl ValueError
       else length (chain c') = length (chain c) + 1 \<and>
            (\<forall>i<length (chain c). chain c' ! i = chain c ! i) \<and> current_data c' = []))"
  by (auto simp: construct_block_def main_construct_block_def save_block_def Let_def
      nth_append split: if_splits)

theorem construct_block_append_only_witness:
  "\<exists>c' block.
     main_construct_block example_env (loaded_chain ''blockchain_data'') 0
       (calculate_hash example_env stored_block) 1700000001 = (c', Inr block) \<and>
     construct_block (loaded_chain ''blockchain_data'') 0
       (calculate_hash example_env stored_block) 1700000001 = (c', block) \<and>
     length (chain c') = 2 \<and> chain c' ! 0 = stored_block \<and> current_data c' = []"
proof -
  let ?c = "loaded_chain ''blockchain_data''"
  let ?h = "calculate_hash example_env stored_block"
  obtain c' block where m: "main_construct_block example_env ?c 0 ?h 1700000001 = (c', Inr block)"
    using main_seal_stored_block by blast
  have b: "construct_block ?c 0 ?h 1700000001 = (c', block)"
    using m by (auto simp: main_construct_block_def construct_block_def Let_def
        split: if_splits)
  have len: "length (chain ?c) = 1" and hd: "chain ?c ! 0 = stored_block"
    and ok: "\<not> (chain ?c \<noteq> [] \<and> index (last (chain ?c)) + 1 \<noteq> int (length (chain ?c)))"
    by (simp_all add: loaded_chain_def)
  from construct_block_append_only [of ?c 0 ?h 1700000001 example_env] m ok
  have "length (chain c') = length (chain ?c) + 1 \<and>
        (\<forall>i<length (chain ?c). chain c' ! i = chain ?c ! i) \<and> current_data c' = []"
    by (auto split: if_splits)
  with len hd have "length (chain c') = 2 \<and> chain c' ! 0 = stored_block \<and> current_data c' = []"
    by simp
  with m b show ?thesis by blast
qed

text \<open>
  C10. The claim says that \<open>verify_chain_integrity\<close> returns False for a target index without
  an entry in \<open>chunk_index\<close>. On a chain that was just created in the default directory,
  the targets 1 (beyond the tail) and -1 have no entry, and the call raises
  FileNotFoundError: the entry of the neighbour 0 was written by \<open>save_block\<close> as the joined
  path, and \<open>load_block\<close> joins the directory to it a second time.
\<close>

theorem verify_window_fresh_chain_raises:
  "\<exists>c. Blockchain_init ''blockchain_data'' csize ''default'' [] now = Inr c \<and>
       chunk_index c 1 = None \<and> chunk_index c (- 1) = None \<and>
       verify_chain_integrity env c 1 = Inl FileNotFoundError \<and>
       verify_chain_integrity env c (- 1) = Inl FileNotFoundError"
  by (simp add: fresh_chain verify_chain_integrity_def load_adjacent_blocks_def
      blocks_to_load_def load_block_def os_path_join_def Let_def)

text \<open>
  C7. On a chain whose records all name a file, a grantee and a granter (as the records
  written by \<open>grant_access\<close> do), \<open>has_access\<close> returns True if and only if some record of
  the chain has the base name of the requested path and names the identity as grantee
  (\<open>user_to_share\<close>) or as granter (\<open>owner\<close>). In particular, granting \<open>f.txt\<close> from alice
  to bob on a chain without records gives access to bob, and none to carol.
\<close>

theorem has_access_iff_granted:
  "((\<forall>d\<in>set (records c). grant_like d) \<longrightarrow>
      has_access c file_name user = Inr (\<exists>d\<in>set (records c). grants file_name user d)) \<and>
   (records c = [] \<and> current_data c = [] \<and>
    grant_access env c ''f.txt'' ''alice'' ''bob'' stamp now = Some (c', Inr ()) \<longrightarrow>
      has_access c' ''f.txt'' ''bob'' = Inr True \<and>
      has_access c' ''f.txt'' ''carol'' = Inr False)"
proof (intro conjI impI)
  assume "\<forall>d\<in>set (records c). grant_like d"
  then show "has_access c file_name user = Inr (\<exists>d\<in>set (records c). grants file_name user d)"
    by (simp add: has_access_def records_def [symmetric] has_access_scan_grants list_all_iff)
next
  assume a: "records c = [] \<and> current_data c = [] \<and>
    grant_access env c ''f.txt'' ''alice'' ''bob'' stamp now = Some (c', Inr ())"
  then have r: "records c' = [grant_record ''f.txt'' ''alice'' ''bob'' stamp]"
    using grant_access_records [of env c "''f.txt''" "''alice''" "''bob''" stamp now c']
    by simp
  show "has_access c' ''f.txt'' ''bob'' = Inr True"
    by (simp add: has_access_def records_def [symmetric] r grant_record_def basename_f_txt)
  show "has_access c' ''f.txt'' ''carol'' = Inr False"
    by (simp add: has_access_def records_def [symmetric] r grant_record_def basename_f_txt)
qed

theorem has_access_iff_granted_witness:
  "\<exists>c'. grant_access example_env (loaded_chain ''access_blockchain'')
           ''f.txt'' ''alice'' ''bob'' ''2024-01-01 00:00:00'' 1700000001 = Some (c', Inr ()) \<and>
        has_access (loaded_chain ''access_blockchain'') ''f.txt'' ''bob'' = Inr False \<and>
        has_access c' ''f.txt'' ''bob'' = Inr True \<and>
        has_access c' ''f.txt'' ''carol'' = Inr False"
proof -
  let ?c = "loaded_chain ''access_blockchain''"
  obtain c' where g: "grant_access example_env ?c
           ''f.txt'' ''alice'' ''bob'' ''2024-01-01 00:00:00'' 1700000001 = Some (c', Inr ())"
    using grant_access_loaded_chain by blast
  have e: "records ?c = []" "current_data ?c = []"
    by (simp_all add: records_def loaded_chain_def)
  note t = has_access_iff_granted [of ?c _ _ example_env "''2024-01-01 00:00:00''" 1700000001 c']
  from t [of "''f.txt''" "''bob''"] e have "has_access ?c ''f.txt'' ''bob'' = Inr False"
    by simp
  moreover from t [of "''f.txt''" "''bob''"] e g
  have "has_access c' ''f.txt'' ''bob'' = Inr True \<and> has_access c' ''f.txt'' ''carol'' = Inr False"
    by blast
  ultimately show ?thesis using g by blast
qed

text \<open>
  C9. For a path present in \<open>file_index\<close>: when the integrity verification that
  \<open>get_file_content\<close> runs returns False (the verification of the window in
  BlockChainBackup.py, of the whole chain in main.py), \<open>get_file_content\<close> returns None,
  and no file bytes.
\<close>

theorem get_file_content_integrity_failure:
  "file_index c (Str file_name) = Some i \<longrightarrow>
     (verify_chain_integrity env c i = Inr False \<longrightarrow>
        get_file_content env c file_name owner is_shared = Inr None) \<and>
     (\<not> main_verify_chain_integrity env c \<longrightarrow>
        main_get_file_content env c file_name owner is_shared = Inr None)"
  by (simp add: get_file_content_def main_get_file_content_def)

theorem get_file_content_integrity_failure_witness:
  "file_index edited_chain (Str ''f.txt'') = Some 1 \<and>
   verify_chain_integrity example_env edited_chain 1 = Inr False \<and>
   \<not> main_verify_chain_integrity example_env edited_chain \<and>
   get_file_content example_env edited_chain ''f.txt'' ''alice'' False = Inr None \<and>
   main_get_file_content example_env edited_chain ''f.txt'' ''alice'' False = Inr None"
  using edited_chain_fails
    get_file_content_integrity_failure [of edited_chain "''f.txt''" 1 example_env "''alice''" False]
  by blast

text \<open>
  C6. The claim says that after \<open>add_file\<close> of \<open>f.txt\<close>, \<open>get_file_content\<close> returns the
  stored bytes to the owner and with the shared flag, and None to another identity. The
  code does not get that far in the default storage directory \<open>file_blockchain\<close>: whenever
  \<open>add_file\<close> has returned on a content chain in that directory (its name without a slash),
  and the directory has no file \<open>file_blockchain/file_blockchain/...\<close> under the name of the
  new block, \<open>get_file_content\<close> for the added path raises FileNotFoundError, for every
  requesting identity and either value of the shared flag. \<open>save_block\<close> has put the joined
  path into \<open>chunk_index\<close>, and \<open>load_block\<close> joins the directory to it once more.
\<close>

theorem get_file_after_add_file_raises:
  assumes "add_file env (fc, ac, ic) file_path file_date file_content owner
             now stamp_a now_a stamp_i now_i = Some ((fc', ac', ic'), Inr ())"
    and "storage_dir fc = ''file_blockchain''"
    and "CHR ''/'' \<notin> set (blockchain_name fc)"
    and "map_of (disk fc) (''file_blockchain/'' @ next_block_file fc) = None"
  shows "get_file_content env fc' (relpath env file_path) requester is_shared =
           Inl FileNotFoundError"
proof -
  let ?rec = "file_record (relpath env file_path) file_date file_content owner"
  let ?c = "fc\<lparr>current_data := current_data fc @ [?rec]\<rparr>"
  let ?n = "int (length (chain fc))"
  from add_file_returns [OF assms(1)] obtain c1 block where
    s: "seal env ?c now = Some (c1, Inr block)" and fc': "fc' = update_file_index c1"
    by blast
  from seal_returns [OF s] have
    ch: "chain c1 = chain fc @ [block]" and da: "data block = current_data fc @ [?rec]"
    and ix: "index block = ?n"
    by simp_all
  have nbf: "next_block_file ?c = next_block_file fc"
    by (simp add: next_block_file_def)
  from seal_returns_storage [OF s] nbf have
    ci: "chunk_index c1 ?n = Some (next_block_file fc)"
    and dk: "disk c1 = write_file (disk fc) (next_block_file fc) block"
    and sd: "storage_dir c1 = storage_dir fc"
    by simp_all
  have "map_of ?rec ''file_name'' = Some (Str (relpath env file_path))"
    by (simp add: file_record_def)
  from file_index_last_record [OF ch da this] ix fc'
  have fi: "file_index fc' (Str (relpath env file_path)) = Some ?n"
    by simp
  have bf: "block_file_name (blockchain_name fc) ?n \<noteq> [] \<and>
            hd (block_file_name (blockchain_name fc) ?n) \<noteq> CHR ''/''"
    using assms(3) by (cases "blockchain_name fc") (auto simp: block_file_name_def)
  have nb: "next_block_file fc =
              ''file_blockchain/'' @ block_file_name (blockchain_name fc) ?n"
    using bf by (simp add: next_block_file_def assms(2) os_path_join_def)
  have jn: "os_path_join (storage_dir fc) (next_block_file fc) =
              ''file_blockchain/'' @ next_block_file fc"
    by (simp add: assms(2) nb os_path_join_def)
  have ne: "os_path_join (storage_dir fc) (next_block_file fc) \<noteq> next_block_file fc"
    unfolding jn by simp
  have "load_block fc' (next_block_file fc) = Inl FileNotFoundError"
    using ne assms(4) by (simp add: load_block_def fc' dk sd map_of_write_file jn)
  moreover have "chunk_index fc' ?n = Some (next_block_file fc)"
    by (simp add: fc' ci)
  ultimately have "load_adjacent_blocks env fc' ?n = Inl FileNotFoundError"
    by (rule load_adjacent_blocks_raises [rotated])
  then show ?thesis
    by (simp add: get_file_content_def fi verify_chain_integrity_def)
qed

theorem get_file_after_add_file_raises_witness:
  "\<exists>fc' ac' ic'.
     add_file example_env
       (loaded_chain ''file_blockchain'', loaded_chain ''access_blockchain'',
        loaded_chain ''index_blockchain'')
       ''f.txt'' ''2024-01-01 00:00:00'' ''hi'' ''alice''
       1700000001 ''2024-01-01 00:00:01'' 1700000002 ''2024-01-01 00:00:02'' 1700000003 =
     Some ((fc', ac', ic'), Inr ()) \<and>
     get_file_content example_env fc' ''f.txt'' ''alice'' False = Inl FileNotFoundError \<and>
     get_file_content example_env fc' ''f.txt'' ''bob'' True = Inl FileNotFoundError"
proof -
  let ?fc = "loaded_chain ''file_blockchain''"
  obtain fc' ac' ic' where a:
    "add_file example_env
       (?fc, loaded_chain ''access_blockchain'', loaded_chain ''index_blockchain'')
       ''f.txt'' ''2024-01-01 00:00:00'' ''hi'' ''alice''
       1700000001 ''2024-01-01 00:00:01'' 1700000002 ''2024-01-01 00:00:02'' 1700000003 =
     Some ((fc', ac', ic'), Inr ())"
    using add_file_loaded_chain by blast
  have n: "next_block_file ?fc = ''file_blockchain/default_block_1.pkl''"
    by (simp add: next_block_file_def loaded_chain_def block_file_name_def os_path_join_def
        str_int_1)
  have h1: "storage_dir ?fc = ''file_blockchain''"
    by (simp add: loaded_chain_def)
  have h2: "CHR ''/'' \<notin> set (blockchain_name ?fc)"
    by (simp add: loaded_chain_def)
  have h3: "map_of (disk ?fc) (''file_blockchain/'' @ next_block_file ?fc) = None"
    unfolding n by (simp add: loaded_chain_def os_path_join_def)
  have r: "relpath example_env ''f.txt'' = ''f.txt''"
    by (simp add: example_env_def)
  from get_file_after_add_file_raises [OF a h1 h2 h3, of "''alice''" False]
       get_file_after_add_file_raises [OF a h1 h2 h3, of "''bob''" True] a r
  show ?thesis by auto
qed

text \<open>
  C2. The claim says that \<open>load_chain\<close> gives back the persisted blocks in the order of
  their indices, for chains of every length. \<open>load_chain\<close> of BlockChainBackup.py sorts
  the file names as strings: on a directory that holds the eleven files written by
  \<open>save_block\<close> for the indices 0 to 10 (with any block content), the loaded chain has the
  block of index 10 in third place. main.py sorts the same names by the index in the
  name (lemma \<open>main_block_files_eleven\<close>).
\<close>

theorem load_chain_lexical_order:
  "\<exists>c. load_chain (new_object ''blockchain_data'' csize ''default''
          (map (\<lambda>i. (os_path_join ''blockchain_data'' (block_file_name ''default'' i),
                       (b i)\<lparr>index := i\<rparr>)) [0..10])) now = Inr c \<and>
       map index (chain c) = [0, 1, 10, 2, 3, 4, 5, 6, 7, 8, 9]"
  unfolding load_chain_def block_files_eleven
  by (simp add: new_object_def load_block_def os_path_join_def block_file_name_def
      str_int_def str_nat.simps hex_digit_def upto.simps)

text \<open>
  C5. The claim says that \<open>register_user\<close> for a new name appends a credential record and
  seals a block that holds it. \<open>register_user\<close> of BlockChainBackup.py never touches the
  chain, the pending buffer or the storage; for a new name it stores the digest of the
  secret and returns True. \<open>register_user\<close> of main.py does what the claim says (lemmas
  \<open>main_register_user_present\<close> and \<open>main_register_user_seals\<close>).
\<close>

theorem register_user_seals_nothing:
  "chain (fst (register_user c username password)) = chain c \<and>
   current_data (fst (register_user c username password)) = current_data c \<and>
   disk (fst (register_user c username password)) = disk c \<and>
   (users c username = None \<longrightarrow>
      snd (register_user c username password) = True \<and>
      users (fst (register_user c username password)) username =
        Some (sha256_hexdigest password))"
  by (simp add: register_user_def)

theorem register_user_seals_nothing_witness:
  "users (loaded_chain ''file_blockchain'') ''a'' = None \<and>
   snd (register_user (loaded_chain ''file_blockchain'') ''a'' ''p'') = True \<and>
   chain (fst (register_user (loaded_chain ''file_blockchain'') ''a'' ''p'')) = [stored_block] \<and>
   current_data (fst (register_user (loaded_chain ''file_blockchain'') ''a'' ''p'')) = []"
proof -
  have u: "users (loaded_chain ''file_blockchain'') ''a'' = None"
    and c: "chain (loaded_chain ''file_blockchain'') = [stored_block]"
    and d: "current_data (loaded_chain ''file_blockchain'') = []"
    by (simp_all add: loaded_chain_def)
  from register_user_seals_nothing [of "loaded_chain ''file_blockchain''" "''a''" "''p''"] u c d
  show ?thesis by simp
qed

end
